theory Spec2Isabelle
  imports Complex_Main
begin

section \<open>Data model\<close>

text \<open>
  The tables are those of the booth-code migration (the SQL that accompanies the
  JavaScript modules). A table is the list of its rows, in insertion order. Instants are
  milliseconds since the epoch, as \<open>Date.now()\<close> counts them; a nullable column is an
  \<open>option\<close>. Only the columns that the modelled functions read or write are kept.
  Every request is answered by the store, so the only storage errors are the ones that
  the schema's constraints and triggers raise, and within one call the clock is read once.

  A \<open>TIMESTAMP\<close> column has no zone. The JavaScript writes it with \<open>toISOString()\<close>, whose
  zone mark the store ignores, so the stored value is the instant itself read on the UTC
  clock; the session of the stored functions runs in UTC, where \<open>NOW()\<close> compares with such
  a value as an instant. The JavaScript reads the column back with \<open>new Date(...)\<close>, which
  takes a date-time without zone as local time: \<open>parse_local\<close> is that reading, the
  identity in a browser whose zone is UTC.
\<close>

type_synonym instant = int

record booth =
  b_id :: nat
  b_name :: string
  booth_code :: "string option"
  code_expires_at :: "instant option"
  b_is_active :: bool
  max_operators :: "int option"

record booth_operation =
  op_id :: nat
  op_booth_id :: nat
  operator_name :: string
  operator_phone :: "string option"
  operator_email :: "string option"
  operator_organization :: "string option"
  started_at :: instant
  ended_at :: "instant option"
  op_is_active :: bool
  total_participants :: int
  op_notes :: "string option"

record operator_session =
  session_token :: string
  booth_operation_id :: "nat option"
  expires_at :: instant
  last_activity :: instant
  os_ip_address :: "string option"

text \<open>
  The texts that the stored function writes into \<open>code_attempts.error_message\<close> are
  Korean; each is named here by what it says: too many attempts, wrong code, expired
  code, inactive booth.
\<close>

datatype attempt_reason = TooManyAttempts | WrongCode | ExpiredCode | InactiveBooth

record code_attempt =
  attempted_code :: string
  ca_ip_address :: string
  attempted_at :: instant
  success :: bool
  ca_booth_id :: "nat option"
  error_message :: "attempt_reason option"

record participant =
  p_id :: nat
  p_booth_id :: nat
  created_at :: instant

text \<open>
  The session object that \<open>operator-auth.js\<close> keeps in the browser under the key
  \<open>operator_session\<close>.
\<close>

record local_session =
  ls_operationId :: nat
  ls_boothId :: nat
  ls_boothName :: string
  ls_operatorName :: string
  ls_startedAt :: instant
  ls_expiresAt :: "instant option"

text \<open>What \<open>localStorage.getItem\<close> followed by \<open>JSON.parse\<close> can meet under that key.\<close>

datatype stored_session = Absent | Unparsable | Stored local_session

text \<open>
  A row of \<open>booth_daily_stats\<close>: the day is counted in days since the epoch, and
  \<open>operation_hours\<close>, a \<open>DECIMAL(5,2)\<close>, in hundredths of an hour.
\<close>

record daily_stat =
  ds_booth_id :: nat
  ds_date :: int
  operator_count :: int
  operation_hours :: int

text \<open>
  The whole state: the tables, whether the Supabase client object exists, and the
  browser: its mock-mode switch, its reading of zone-less times and its local storage.
\<close>

record state =
  booths :: "booth list"
  booth_operations :: "booth_operation list"
  operator_sessions :: "operator_session list"
  code_attempts :: "code_attempt list"
  participants :: "participant list"
  daily_stats :: "daily_stat list"
  supabase :: bool
  useMockMode :: bool
  parse_local :: "instant \<Rightarrow> instant"
  ls_session_token :: "string option"
  ls_current_operation :: "booth_operation option"
  ls_operator_session :: stored_session

section \<open>JavaScript and storage primitives\<close>

text \<open>\<open>.single()\<close>: the row when exactly one matches; otherwise an error and no data.\<close>

fun single :: "'a list \<Rightarrow> 'a option" where
  "single [x] = Some x"
| "single _ = None"

text \<open>A string is truthy when it is neither null nor empty.\<close>

fun truthy :: "string option \<Rightarrow> bool" where
  "truthy None = False"
| "truthy (Some s) = (s \<noteq> [])"

text \<open>\<open>String.prototype.charAt\<close>: the empty string outside the string.\<close>

definition charAt :: "string \<Rightarrow> int \<Rightarrow> string" where
  "charAt s i = (if 0 \<le> i \<and> i < int (length s) then [s ! nat i] else [])"

definition digit_chars :: string where
  "digit_chars = ''0123456789abcdefghijklmnopqrstuvwxyz''"

text \<open>
  \<open>Number.prototype.toString(radix)\<close> on a non-negative integer; the radix is 10 or 36
  wherever it is used.
\<close>

function to_radix :: "nat \<Rightarrow> nat \<Rightarrow> string" where
  "to_radix r n =
     (if r < 2 \<or> n < r then [digit_chars ! n]
      else to_radix r (n div r) @ [digit_chars ! (n mod r)])"
  by pat_completeness auto
termination
  by (relation "measure snd") auto

declare to_radix.simps [simp del]

text \<open>\<open>toUpperCase\<close>, on the ASCII letters; every other character is kept.\<close>

definition upper_of :: "char \<Rightarrow> char" where
  "upper_of c =
     (case map_of (zip ''abcdefghijklmnopqrstuvwxyz'' ''ABCDEFGHIJKLMNOPQRSTUVWXYZ'') c of
        Some u \<Rightarrow> u
      | None \<Rightarrow> c)"

definition toUpperCase :: "string \<Rightarrow> string" where
  "toUpperCase s = map upper_of s"

text \<open>\<open>substr(-3)\<close>: the last three characters, or the whole string when it is shorter.\<close>

definition substr_last3 :: "string \<Rightarrow> string" where
  "substr_last3 s = drop (length s - 3) s"

text \<open>
  Storing a string in a \<open>VARCHAR(n)\<close> column: a longer value is refused, unless all that
  exceeds \<open>n\<close> characters is spaces, which are cut off. \<open>None\<close> is the refusal.
\<close>

definition fit :: "nat \<Rightarrow> string \<Rightarrow> string option" where
  "fit n v =
     (if length v \<le> n then Some v
      else if list_all (\<lambda>c. c = CHR '' '') (drop n v) then Some (take n v)
      else None)"

text \<open>The same for a nullable column.\<close>

fun fit_null :: "nat \<Rightarrow> string option \<Rightarrow> string option option" where
  "fit_null n None = Some None"
| "fit_null n (Some v) = (case fit n v of None \<Rightarrow> None | Some w \<Rightarrow> Some (Some w))"

section \<open>Code generator (booth-code module)\<close>

text \<open>
  \<open>Math.random()\<close> is a stream of draws \<open>rnd 0, rnd 1, ...\<close>; every function that
  draws takes the position of the next draw and returns the position after its last.
  A draw is a real number, and products with it are exact.
\<close>

definition letters :: string where
  "letters = ''ABCDEFGHIJKLMNOPQRSTUVWXYZ''"

definition numbers :: string where
  "numbers = ''0123456789''"

text \<open>One of the two loops of \<open>generateBoothCode\<close>: \<open>n\<close> characters drawn from \<open>alphabet\<close>.\<close>

fun draw_chars :: "string \<Rightarrow> (nat \<Rightarrow> real) \<Rightarrow> nat \<Rightarrow> nat \<Rightarrow> string" where
  "draw_chars alphabet rnd k 0 = []"
| "draw_chars alphabet rnd k (Suc n) =
     charAt alphabet \<lfloor>rnd k * real (length alphabet)\<rfloor> @ draw_chars alphabet rnd (Suc k) n"

definition generateBoothCode :: "(nat \<Rightarrow> real) \<Rightarrow> nat \<Rightarrow> string \<times> nat" where
  "generateBoothCode rnd k =
     (draw_chars letters rnd k 3 @ draw_chars numbers rnd (k + 3) 3, k + 6)"

definition isCodeUnique :: "state \<Rightarrow> string \<Rightarrow> bool" where
  "isCodeUnique s code =
     (if supabase s then single (filter (\<lambda>b. booth_code b = Some code) (booths s)) = None
      else False)"

text \<open>The retry loop of \<open>generateUniqueBoothCode\<close>: \<open>None\<close> when every attempt collided.\<close>

fun unique_loop :: "state \<Rightarrow> (nat \<Rightarrow> real) \<Rightarrow> nat \<Rightarrow> nat \<Rightarrow> string option \<times> nat" where
  "unique_loop s rnd k 0 = (None, k)"
| "unique_loop s rnd k (Suc n) =
     (case generateBoothCode rnd k of
        (code, k') \<Rightarrow> if isCodeUnique s code then (Some code, k') else unique_loop s rnd k' n)"

text \<open>\<open>String(Math.floor(x))\<close> for the last character of the fallback.\<close>

definition int_to_string :: "int \<Rightarrow> string" where
  "int_to_string i = (if i < 0 then CHR ''-'' # to_radix 10 (nat (- i)) else to_radix 10 (nat i))"

definition fallback_code :: "nat \<Rightarrow> real \<Rightarrow> string" where
  "fallback_code now r =
     ''XX'' @ toUpperCase (substr_last3 (to_radix 36 now)) @ int_to_string \<lfloor>r * 10\<rfloor>"

definition generateUniqueBoothCode ::
  "state \<Rightarrow> nat \<Rightarrow> (nat \<Rightarrow> real) \<Rightarrow> nat \<Rightarrow> nat \<Rightarrow> string \<times> nat" where
  "generateUniqueBoothCode s maxAttempts rnd k now =
     (case unique_loop s rnd k maxAttempts of
        (Some code, k') \<Rightarrow> (code, k')
      | (None, k') \<Rightarrow> (fallback_code now (rnd k'), k' + 1))"

text \<open>The format of a booth code: three upper-case letters, then three digits.\<close>

definition well_formed :: "string \<Rightarrow> bool" where
  "well_formed code =
     (length code = 6 \<and> list_all (\<lambda>c. c \<in> set letters) (take 3 code)
        \<and> list_all (\<lambda>c. c \<in> set numbers) (drop 3 code))"

text \<open>
  \<open>assignCodeToBooth\<close>. The expiry is \<open>expiryDays\<close> calendar days ahead, taken as days of
  24 hours. The update runs against the \<open>UNIQUE\<close> constraint on \<open>booths.booth_code\<close>: it
  is refused when it would give the booth a code that another row holds.
\<close>

datatype assign_result = AssignOk string instant | AssignFailed

definition unique_violation :: "booth list \<Rightarrow> nat \<Rightarrow> string \<Rightarrow> bool" where
  "unique_violation bs boothId code =
     (list_ex (\<lambda>b. b_id b = boothId) bs
        \<and> list_ex (\<lambda>b. b_id b \<noteq> boothId \<and> booth_code b = Some code) bs)"

definition assignCodeToBooth ::
  "state \<Rightarrow> nat \<Rightarrow> int \<Rightarrow> (nat \<Rightarrow> real) \<Rightarrow> nat \<Rightarrow> nat \<Rightarrow> state \<times> assign_result" where
  "assignCodeToBooth s boothId expiryDays rnd k now =
     (let code = fst (generateUniqueBoothCode s 10 rnd k now);
          expiresAt = int now + expiryDays * 86400000
      in if \<not> supabase s then (s, AssignFailed)
         else if unique_violation (booths s) boothId code then (s, AssignFailed)
         else (s\<lparr>booths :=
                  map (\<lambda>b. if b_id b = boothId
                            then b\<lparr>booth_code := Some code, code_expires_at := Some expiresAt\<rparr>
                            else b) (booths s)\<rparr>,
               AssignOk code expiresAt))"

text \<open>The storage constraint that no two booths hold the same non-null code.\<close>

definition codes_unique :: "state \<Rightarrow> bool" where
  "codes_unique s = distinct (List.map_filter booth_code (booths s))"

definition upper_alnum :: "char \<Rightarrow> bool" where
  "upper_alnum c = (c \<in> set (numbers @ letters))"

text \<open>The shape of the fallback: \<open>XX\<close>, three characters of 0-9A-Z, one digit.\<close>

definition fallback_shaped :: "string \<Rightarrow> bool" where
  "fallback_shaped code =
     (length code = 6 \<and> take 2 code = ''XX'' \<and> list_all upper_alnum (take 3 (drop 2 code))
        \<and> list_all (\<lambda>c. c \<in> set numbers) (drop 5 code))"

section \<open>Stored functions of the migration\<close>

definition hour :: int where
  "hour = 3600000"

text \<open>
  \<open>check_ip_attempts\<close>: the failed attempts of one address with
  \<open>attempted_at > NOW() - INTERVAL '1 hour'\<close>.
\<close>

definition check_ip_attempts :: "code_attempt list \<Rightarrow> string \<Rightarrow> instant \<Rightarrow> nat" where
  "check_ip_attempts attempts check_ip now =
     length (filter (\<lambda>a. ca_ip_address a = check_ip \<and> now - hour < attempted_at a \<and> \<not> success a)
               attempts)"

text \<open>
  The messages that \<open>validate_booth_code\<close> returns, named by what they say. The length in
  the type of a parameter is not enforced, so the function receives a code and an address
  of any length.
\<close>

datatype validate_message = MsgTooMany | MsgWrongCode | MsgExpired | MsgInactive | MsgConfirmed

record validation_row =
  is_valid :: bool
  v_booth_id :: "nat option"
  v_booth_name :: "string option"
  v_message :: validate_message

text \<open>
  The \<open>INSERT INTO code_attempts\<close> of every branch: \<open>attempted_code\<close> is a \<open>VARCHAR(6)\<close>
  and \<open>ip_address\<close> a \<open>VARCHAR(45)\<close>, and \<open>attempted_at\<close> takes its default \<open>NOW()\<close>. \<open>None\<close>
  when the store refuses the row.
\<close>

definition insert_attempt ::
  "state \<Rightarrow> string \<Rightarrow> string \<Rightarrow> instant \<Rightarrow> bool \<Rightarrow> nat option \<Rightarrow> attempt_reason option
     \<Rightarrow> state option" where
  "insert_attempt s code ip now ok bid reason =
     (case fit 6 code of
        None \<Rightarrow> None
      | Some c \<Rightarrow>
          (case fit 45 ip of
             None \<Rightarrow> None
           | Some a \<Rightarrow>
               Some (s\<lparr>code_attempts := code_attempts s @
                      [\<lparr>attempted_code = c, ca_ip_address = a, attempted_at = now, success = ok,
                        ca_booth_id = bid, error_message = reason\<rparr>]\<rparr>)))"

text \<open>
  A branch of \<open>validate_booth_code\<close>: the insert, then the row returned. When the insert
  raises, the function ends there: nothing is recorded and nothing is returned.
\<close>

definition record_and_return ::
  "state \<Rightarrow> string \<Rightarrow> string \<Rightarrow> instant \<Rightarrow> bool \<Rightarrow> nat option \<Rightarrow> attempt_reason option
     \<Rightarrow> validation_row \<Rightarrow> state \<times> validation_row option" where
  "record_and_return s code ip now ok bid reason result =
     (case insert_attempt s code ip now ok bid reason of
        None \<Rightarrow> (s, None)
      | Some s' \<Rightarrow> (s', Some result))"

definition refusal :: "validate_message \<Rightarrow> validation_row" where
  "refusal m = \<lparr>is_valid = False, v_booth_id = None, v_booth_name = None, v_message = m\<rparr>"

definition validate_booth_code ::
  "state \<Rightarrow> string \<Rightarrow> string \<Rightarrow> instant \<Rightarrow> state \<times> validation_row option" where
  "validate_booth_code s input_code input_ip now =
     (if 5 \<le> check_ip_attempts (code_attempts s) input_ip now
      then record_and_return s input_code input_ip now False None (Some TooManyAttempts)
             (refusal MsgTooMany)
      else case filter (\<lambda>b. booth_code b = Some input_code) (booths s) of
        [] \<Rightarrow> record_and_return s input_code input_ip now False None (Some WrongCode)
               (refusal MsgWrongCode)
      | b # _ \<Rightarrow>
          if (case code_expires_at b of None \<Rightarrow> False | Some e \<Rightarrow> e < now)
          then record_and_return s input_code input_ip now False (Some (b_id b))
                 (Some ExpiredCode) (refusal MsgExpired)
          else if \<not> b_is_active b
          then record_and_return s input_code input_ip now False (Some (b_id b))
                 (Some InactiveBooth) (refusal MsgInactive)
          else record_and_return s input_code input_ip now True (Some (b_id b)) None
                 \<lparr>is_valid = True, v_booth_id = Some (b_id b), v_booth_name = Some (b_name b),
                  v_message = MsgConfirmed\<rparr>)"

text \<open>The reason recorded with an attempt, for each message that the function returns.\<close>

fun reason_of :: "validate_message \<Rightarrow> attempt_reason option" where
  "reason_of MsgTooMany = Some TooManyAttempts"
| "reason_of MsgWrongCode = Some WrongCode"
| "reason_of MsgExpired = Some ExpiredCode"
| "reason_of MsgInactive = Some InactiveBooth"
| "reason_of MsgConfirmed = None"

section \<open>Writes to the operation tables, under the schema and its triggers\<close>

text \<open>
  An insert into \<open>booth_operations\<close>. \<open>newId\<close> is the value that the sequence behind \<open>id\<close>
  yields for this row. The store refuses the row when \<open>operator_name\<close> is null, when a
  value does not fit its column (\<open>operator_name\<close>, \<open>operator_email\<close> and
  \<open>operator_organization\<close> are \<open>VARCHAR(100)\<close>, \<open>operator_phone\<close> is \<open>VARCHAR(20)\<close>), when the
  id is taken, or when \<open>booth_id\<close> is the id of no booth.
\<close>

definition insert_operation ::
  "state \<Rightarrow> nat \<Rightarrow> nat \<Rightarrow> string option \<Rightarrow> string option \<Rightarrow> string option \<Rightarrow> string option
     \<Rightarrow> instant \<Rightarrow> string option \<Rightarrow> state \<times> booth_operation option" where
  "insert_operation s newId boothId name phone email organization startedAt notes =
     (case name of
        None \<Rightarrow> (s, None)
      | Some given \<Rightarrow>
          (case fit 100 given of
             None \<Rightarrow> (s, None)
           | Some n \<Rightarrow>
               (case fit_null 20 phone of
                  None \<Rightarrow> (s, None)
                | Some p \<Rightarrow>
                    (case fit_null 100 email of
                       None \<Rightarrow> (s, None)
                     | Some e \<Rightarrow>
                         (case fit_null 100 organization of
                            None \<Rightarrow> (s, None)
                          | Some g \<Rightarrow>
                              if list_ex (\<lambda>x. op_id x = newId) (booth_operations s)
                                   \<or> \<not> list_ex (\<lambda>b. b_id b = boothId) (booths s)
                              then (s, None)
                              else
                                (s\<lparr>booth_operations := booth_operations s @
                                     [\<lparr>op_id = newId, op_booth_id = boothId, operator_name = n,
                                       operator_phone = p, operator_email = e,
                                       operator_organization = g, started_at = startedAt,
                                       ended_at = None, op_is_active = True,
                                       total_participants = 0, op_notes = notes\<rparr>]\<rparr>,
                                 Some \<lparr>op_id = newId, op_booth_id = boothId, operator_name = n,
                                       operator_phone = p, operator_email = e,
                                       operator_organization = g, started_at = startedAt,
                                       ended_at = None, op_is_active = True,
                                       total_participants = 0, op_notes = notes\<rparr>))))))"

text \<open>
  An insert into \<open>operator_sessions\<close>: \<open>session_token\<close> is a \<open>UNIQUE VARCHAR(64)\<close>,
  \<open>ip_address\<close> a \<open>VARCHAR(45)\<close>, \<open>booth_operation_id\<close> references \<open>booth_operations\<close>, and
  \<open>last_activity\<close> takes its default \<open>NOW()\<close>. The flag tells whether the row was stored.
\<close>

definition insert_session ::
  "state \<Rightarrow> string \<Rightarrow> nat \<Rightarrow> instant \<Rightarrow> instant \<Rightarrow> string option \<Rightarrow> state \<times> bool" where
  "insert_session s token operationId expiresAt now ip =
     (case fit 64 token of
        None \<Rightarrow> (s, False)
      | Some t \<Rightarrow>
          (case fit_null 45 ip of
             None \<Rightarrow> (s, False)
           | Some a \<Rightarrow>
               if list_ex (\<lambda>x. session_token x = t) (operator_sessions s)
                    \<or> \<not> list_ex (\<lambda>x. op_id x = operationId) (booth_operations s)
               then (s, False)
               else (s\<lparr>operator_sessions := operator_sessions s @
                        [\<lparr>session_token = t, booth_operation_id = Some operationId,
                          expires_at = expiresAt, last_activity = now, os_ip_address = a\<rparr>]\<rparr>,
                     True)))"

text \<open>
  The trigger \<open>update_daily_stats_on_operation_end\<close>. Its value for \<open>operation_hours\<close> is
  \<open>EXTRACT(EPOCH FROM (ended_at - started_at))/3600\<close>, a numeric that the column rounds to
  two decimals, half away from zero: here in hundredths of an hour.
\<close>

definition hours_hundredths :: "instant \<Rightarrow> instant \<Rightarrow> int" where
  "hours_hundredths startedAt endedAt =
     (let d = endedAt - startedAt
      in if 0 \<le> d then (d + 18000) div 36000 else - ((18000 - d) div 36000))"

text \<open>A \<open>DECIMAL(5,2)\<close> holds less than 1000 in absolute value.\<close>

definition decimal_5_2 :: "int \<Rightarrow> bool" where
  "decimal_5_2 h = (\<bar>h\<bar> < 100000)"

text \<open>
  The body of the trigger for a row that has just been ended: the insert into
  \<open>booth_daily_stats\<close> with \<open>ON CONFLICT (booth_id, stat_date) DO UPDATE\<close>. \<open>None\<close> when a
  value overflows \<open>operation_hours\<close>, which raises.
\<close>

definition record_operation_end ::
  "daily_stat list \<Rightarrow> booth_operation \<Rightarrow> instant \<Rightarrow> daily_stat list option" where
  "record_operation_end stats row endedAt =
     (let h = hours_hundredths (started_at row) endedAt;
          d = started_at row div 86400000
      in if \<not> decimal_5_2 h then None
         else case find (\<lambda>x. ds_booth_id x = op_booth_id row \<and> ds_date x = d) stats of
           None \<Rightarrow>
             Some (stats @ [\<lparr>ds_booth_id = op_booth_id row, ds_date = d, operator_count = 1,
                             operation_hours = h\<rparr>])
         | Some found \<Rightarrow>
             if \<not> decimal_5_2 (operation_hours found + h) then None
             else Some (map (\<lambda>x. if ds_booth_id x = op_booth_id row \<and> ds_date x = d
                                  then x\<lparr>operator_count := operator_count x + 1,
                                         operation_hours := operation_hours x + h\<rparr>
                                  else x) stats))"

text \<open>
  The trigger runs after the update of each row, on the pair of the old and the new row,
  and acts when \<open>ended_at\<close> was null and no longer is.
\<close>

fun after_update ::
  "daily_stat list \<Rightarrow> (booth_operation \<times> booth_operation) list \<Rightarrow> daily_stat list option" where
  "after_update stats [] = Some stats"
| "after_update stats ((old, new) # rest) =
     (case ended_at old of
        Some _ \<Rightarrow> after_update stats rest
      | None \<Rightarrow>
          (case ended_at new of
             None \<Rightarrow> after_update stats rest
           | Some e \<Rightarrow>
               (case record_operation_end stats new e of
                  None \<Rightarrow> None
                | Some stats' \<Rightarrow> after_update stats' rest)))"

text \<open>
  An \<open>UPDATE\<close> of \<open>booth_operations\<close>: the rows that match are changed and the trigger
  runs for each of them. When the trigger raises, the statement is refused as a whole
  (\<open>None\<close>) and no row is changed.
\<close>

definition update_operations ::
  "state \<Rightarrow> (booth_operation \<Rightarrow> bool) \<Rightarrow> (booth_operation \<Rightarrow> booth_operation) \<Rightarrow> state option" where
  "update_operations s matches change =
     (case after_update (daily_stats s)
             (map (\<lambda>x. (x, change x)) (filter matches (booth_operations s))) of
        None \<Rightarrow> None
      | Some stats \<Rightarrow>
          Some (s\<lparr>booth_operations :=
                    map (\<lambda>x. if matches x then change x else x) (booth_operations s),
                  daily_stats := stats\<rparr>))"

section \<open>Booth-code module: validation, start and end of an operation\<close>

text \<open>
  The client-side validation. \<open>ValidationError\<close> is the \<open>catch\<close> branch, taken when the
  client object is missing. The state is returned as it was: the function writes nothing.
\<close>

datatype validation_failure = InvalidCode | CodeExpired | BoothInactive | ValidationError

datatype validation = Invalid validation_failure | Valid nat string

definition validateBoothCode :: "state \<Rightarrow> string \<Rightarrow> instant \<Rightarrow> state \<times> validation" where
  "validateBoothCode s code now =
     (if \<not> supabase s then (s, Invalid ValidationError)
      else case single (filter (\<lambda>b. booth_code b = Some code) (booths s)) of
        None \<Rightarrow> (s, Invalid InvalidCode)
      | Some b \<Rightarrow>
          if (case code_expires_at b of None \<Rightarrow> False | Some e \<Rightarrow> parse_local s e < now)
          then (s, Invalid CodeExpired)
          else if \<not> b_is_active b then (s, Invalid BoothInactive)
          else (s, Valid (b_id b) (b_name b)))"

record operator_info =
  oi_name :: "string option"
  oi_phone :: "string option"
  oi_email :: "string option"
  oi_organization :: "string option"
  oi_notes :: "string option"
  oi_ipAddress :: "string option"

text \<open>\<open>x || null\<close> on a string.\<close>

definition or_null :: "string option \<Rightarrow> string option" where
  "or_null x = (if truthy x then x else None)"

text \<open>What the closing update of a start writes into a row that it matches.\<close>

definition closed_at :: "instant \<Rightarrow> booth_operation \<Rightarrow> booth_operation" where
  "closed_at now x = x\<lparr>op_is_active := False, ended_at := Some now\<rparr>"

text \<open>The rows after that update: every active operation of the booth is closed.\<close>

definition close_active :: "nat \<Rightarrow> instant \<Rightarrow> booth_operation list \<Rightarrow> booth_operation list" where
  "close_active boothId now ops =
     map (\<lambda>x. if op_booth_id x = boothId \<and> op_is_active x then closed_at now x else x) ops"

text \<open>
  The closing update as the store runs it. Its error is not looked at: when the store
  refuses it, the start goes on with the state as it was.
\<close>

definition close_active_operations :: "state \<Rightarrow> nat \<Rightarrow> instant \<Rightarrow> state" where
  "close_active_operations s boothId now =
     (case update_operations s (\<lambda>x. op_booth_id x = boothId \<and> op_is_active x) (closed_at now) of
        None \<Rightarrow> s
      | Some s' \<Rightarrow> s')"

datatype code_start_result =
  CodeStartRefused validation_failure | CodeStartError | CodeStartOk nat nat string

text \<open>
  \<open>startBoothOperation\<close> of the booth-code module: the validation, the closing update and
  the insert, with no other request in between. When the insert is refused the update
  before it is already done.
\<close>

definition code_startBoothOperation ::
  "state \<Rightarrow> string \<Rightarrow> operator_info \<Rightarrow> instant \<Rightarrow> nat \<Rightarrow> state \<times> code_start_result" where
  "code_startBoothOperation s boothCode operatorInfo now newId =
     (case validateBoothCode s boothCode now of
        (s1, Invalid f) \<Rightarrow> (s1, CodeStartRefused f)
      | (s1, Valid boothId boothName) \<Rightarrow>
          (case insert_operation (close_active_operations s1 boothId now) newId boothId
                  (oi_name operatorInfo) (or_null (oi_phone operatorInfo)) None None now None of
             (s2, None) \<Rightarrow> (s2, CodeStartError)
           | (s2, Some data) \<Rightarrow> (s2, CodeStartOk (op_id data) boothId boothName)))"

text \<open>
  \<open>endBoothOperation\<close> of the booth-code module; the result is its \<open>success\<close> flag, false
  when the client is missing or the store refuses the update.
\<close>

definition code_endBoothOperation :: "state \<Rightarrow> nat \<Rightarrow> instant \<Rightarrow> state \<times> bool" where
  "code_endBoothOperation s operationId now =
     (if \<not> supabase s then (s, False)
      else case update_operations s (\<lambda>x. op_id x = operationId) (closed_at now) of
        None \<Rightarrow> (s, False)
      | Some s' \<Rightarrow> (s', True))"

section \<open>Operator session in local storage (operator-auth module)\<close>

text \<open>
  \<open>getOperatorSession\<close>: an expired session is removed from local storage and \<open>null\<close> is
  returned; a value that does not parse gives \<open>null\<close> and is left where it is.
\<close>

definition getOperatorSession :: "state \<Rightarrow> instant \<Rightarrow> state \<times> local_session option" where
  "getOperatorSession s now =
     (case ls_operator_session s of
        Absent \<Rightarrow> (s, None)
      | Unparsable \<Rightarrow> (s, None)
      | Stored session \<Rightarrow>
          if (case ls_expiresAt session of None \<Rightarrow> False | Some e \<Rightarrow> e < now)
          then (s\<lparr>ls_operator_session := Absent\<rparr>, None)
          else (s, Some session))"

section \<open>Booth operation module: start, end and lookup with stored sessions\<close>

text \<open>\<open>getSupabase()\<close> returns the client unless mock mode is on or the client is missing.\<close>

definition getSupabase :: "state \<Rightarrow> bool" where
  "getSupabase s = (if useMockMode s then False else if \<not> supabase s then False else True)"

datatype op_error =
  MissingNameOrPhone | InvalidPhone | CapacityReached int | StorageError
  | InvalidSession | NoSession | NoActiveOperation | SessionExpired

text \<open>\<open>booth.max_operators || 3\<close>: null and 0 both give 3.\<close>

definition effective_max :: "booth \<Rightarrow> int" where
  "effective_max b = (case max_operators b of None \<Rightarrow> 3 | Some m \<Rightarrow> if m = 0 then 3 else m)"

definition active_operations :: "state \<Rightarrow> nat \<Rightarrow> booth_operation list" where
  "active_operations s boothId =
     filter (\<lambda>x. op_booth_id x = boothId \<and> op_is_active x) (booth_operations s)"

datatype start_result = StartFailed op_error | StartOk booth_operation string

text \<open>
  The arguments of one call of \<open>startBoothOperation\<close>, with what its environment gives it:
  the clock, the token that \<open>generateSessionToken\<close> returns, and the id that the sequence
  yields for the operation. The clock is taken not to advance during a call, and the eight
  hours that \<open>setHours\<close> adds in local time are taken as eight hours of elapsed time.
\<close>

record start_call =
  sc_boothId :: nat
  sc_info :: operator_info
  sc_now :: instant
  sc_token :: string
  sc_newId :: nat

text \<open>
  The check of the operator's name and phone at the head of the function: the error, or
  the name and the phone reduced to its digits.
\<close>

definition check_operator :: "operator_info \<Rightarrow> op_error + string \<times> string" where
  "check_operator operatorInfo =
     (case oi_name operatorInfo of
        None \<Rightarrow> Inl MissingNameOrPhone
      | Some name \<Rightarrow>
          (case oi_phone operatorInfo of
             None \<Rightarrow> Inl MissingNameOrPhone
           | Some rawPhone \<Rightarrow>
               if name = [] \<or> rawPhone = [] then Inl MissingNameOrPhone
               else if length (filter (\<lambda>c. c \<in> set numbers) rawPhone) < 10 then Inl InvalidPhone
               else Inr (name, filter (\<lambda>c. c \<in> set numbers) rawPhone)))"

text \<open>
  The function awaits four requests, and other requests can reach the store between
  them. A call is therefore a sequence of steps, one request each; the point reached
  holds what the call has read so far.
\<close>

datatype start_pc =
    Begin
  | HaveActive string string "booth_operation list"
  | Admitted string string
  | Inserted booth_operation
  | Returned start_result

text \<open>
  One step of a call, on the state as it is when the step runs.
  \<^item> \<open>Begin\<close>: the check of the arguments, the mock branch, or else the first request, which
    selects the active operations of the booth.
  \<^item> \<open>HaveActive\<close>: the second request, which selects the booth, and the comparison of the
    number read before with the booth's limit.
  \<^item> \<open>Admitted\<close>: the insert of the operation.
  \<^item> \<open>Inserted\<close>: the insert of the session, which expires eight hours from now, and the
    writes to local storage.
\<close>

definition start_step :: "state \<Rightarrow> start_call \<Rightarrow> start_pc \<Rightarrow> state \<times> start_pc" where
  "start_step s c pc =
     (case pc of
        Begin \<Rightarrow>
          (case check_operator (sc_info c) of
             Inl e \<Rightarrow> (s, Returned (StartFailed e))
           | Inr (name, phone) \<Rightarrow>
               if \<not> getSupabase s then
                 (s\<lparr>ls_current_operation :=
                      Some \<lparr>op_id = nat (sc_now c), op_booth_id = sc_boothId c,
                            operator_name = name, operator_phone = Some phone,
                            operator_email = or_null (oi_email (sc_info c)),
                            operator_organization = or_null (oi_organization (sc_info c)),
                            started_at = sc_now c, ended_at = None, op_is_active = True,
                            total_participants = 0, op_notes = None\<rparr>,
                    ls_session_token := Some (sc_token c)\<rparr>,
                  Returned (StartOk
                    \<lparr>op_id = nat (sc_now c), op_booth_id = sc_boothId c,
                     operator_name = name, operator_phone = Some phone,
                     operator_email = or_null (oi_email (sc_info c)),
                     operator_organization = or_null (oi_organization (sc_info c)),
                     started_at = sc_now c, ended_at = None, op_is_active = True,
                     total_participants = 0, op_notes = None\<rparr>
                    (sc_token c)))
               else (s, HaveActive name phone (active_operations s (sc_boothId c))))
      | HaveActive name phone activeOperations \<Rightarrow>
          (case single (filter (\<lambda>b. b_id b = sc_boothId c) (booths s)) of
             None \<Rightarrow> (s, Admitted name phone)
           | Some b \<Rightarrow>
               if effective_max b \<le> int (length activeOperations)
               then (s, Returned (StartFailed (CapacityReached (effective_max b))))
               else (s, Admitted name phone))
      | Admitted name phone \<Rightarrow>
          (case insert_operation s (sc_newId c) (sc_boothId c) (Some name) (Some phone)
                  (or_null (oi_email (sc_info c))) (or_null (oi_organization (sc_info c)))
                  (sc_now c) (or_null (oi_notes (sc_info c))) of
             (s', None) \<Rightarrow> (s', Returned (StartFailed StorageError))
           | (s', Some operation) \<Rightarrow> (s', Inserted operation))
      | Inserted operation \<Rightarrow>
          (case insert_session s (sc_token c) (op_id operation) (sc_now c + 8 * hour) (sc_now c)
                  (or_null (oi_ipAddress (sc_info c))) of
             (s', False) \<Rightarrow> (s', Returned (StartFailed StorageError))
           | (s', True) \<Rightarrow>
               (s'\<lparr>ls_session_token := Some (sc_token c),
                   ls_current_operation := Some operation\<rparr>,
                Returned (StartOk operation (sc_token c))))
      | Returned r \<Rightarrow> (s, Returned r))"

definition next_step :: "start_call \<Rightarrow> state \<times> start_pc \<Rightarrow> state \<times> start_pc" where
  "next_step c sp = start_step (fst sp) c (snd sp)"

text \<open>
  \<open>startBoothOperation\<close> of the operation module when no other request reaches the store
  during the call: its four steps in a row.
\<close>

definition startBoothOperation :: "state \<Rightarrow> start_call \<Rightarrow> state \<times> start_pc" where
  "startBoothOperation s c = next_step c (next_step c (next_step c (next_step c (s, Begin))))"

text \<open>
  Two calls in progress on one store, as when the function is called twice without
  awaiting the first call: the schedule says, step by step, which call moves (\<open>True\<close> for
  the first).
\<close>

fun interleave ::
  "state \<Rightarrow> start_call \<times> start_pc \<Rightarrow> start_call \<times> start_pc \<Rightarrow> bool list
     \<Rightarrow> state \<times> start_pc \<times> start_pc" where
  "interleave s (ca, pa) (cb, pb) [] = (s, pa, pb)"
| "interleave s (ca, pa) (cb, pb) (True # schedule) =
     (case start_step s ca pa of (s', pa') \<Rightarrow> interleave s' (ca, pa') (cb, pb) schedule)"
| "interleave s (ca, pa) (cb, pb) (False # schedule) =
     (case start_step s cb pb of (s', pb') \<Rightarrow> interleave s' (ca, pa) (cb, pb') schedule)"

text \<open>
  \<open>calculateDuration\<close>, on two times as the store returns them, without zone: \<open>%\<close> is
  JavaScript's remainder, whose sign is the dividend's.
\<close>

definition js_rem :: "int \<Rightarrow> int \<Rightarrow> int" where
  "js_rem a b = sgn a * (\<bar>a\<bar> mod \<bar>b\<bar>)"

record duration =
  hours :: int
  minutes :: int
  totalMinutes :: int

definition calculateDuration :: "state \<Rightarrow> instant \<Rightarrow> instant option \<Rightarrow> instant \<Rightarrow> duration" where
  "calculateDuration s startTime endTime now =
     (let diffMs = (case endTime of None \<Rightarrow> now | Some e \<Rightarrow> parse_local s e)
                     - parse_local s startTime
      in \<lparr>hours = diffMs div 3600000,
          minutes = js_rem diffMs 3600000 div 60000,
          totalMinutes = diffMs div 60000\<rparr>)"

datatype end_result = EndFailed op_error | EndOkMock | EndOk booth_operation duration nat

text \<open>The session check at the head of \<open>endBoothOperation\<close>: true when the call is refused.\<close>

definition session_refused :: "state \<Rightarrow> nat \<Rightarrow> string option \<Rightarrow> bool" where
  "session_refused s operationId sessionToken =
     (if truthy sessionToken
      then (case single (filter (\<lambda>x. Some (session_token x) = sessionToken) (operator_sessions s)) of
              None \<Rightarrow> True
            | Some session \<Rightarrow> booth_operation_id session \<noteq> Some operationId)
      else False)"

text \<open>What the update of \<open>endBoothOperation\<close> writes into the row.\<close>

definition ended :: "instant \<Rightarrow> nat \<Rightarrow> booth_operation \<Rightarrow> booth_operation" where
  "ended now participantCount x =
     x\<lparr>ended_at := Some now, op_is_active := False, total_participants := int participantCount\<rparr>"

text \<open>
  \<open>endBoothOperation\<close> of the operation module. The participants are selected with
  \<open>.eq('booth_id', operationId)\<close>. The update ends in \<open>.select().single()\<close>: when no row has
  the id, or when the store refuses the update, it reports an error, which is thrown,
  and nothing is written.
\<close>

definition endBoothOperation ::
  "state \<Rightarrow> nat \<Rightarrow> string option \<Rightarrow> instant \<Rightarrow> state \<times> end_result" where
  "endBoothOperation s operationId sessionToken now =
     (if \<not> getSupabase s
      then (s\<lparr>ls_current_operation := None, ls_session_token := None\<rparr>, EndOkMock)
      else if session_refused s operationId sessionToken then (s, EndFailed InvalidSession)
      else
        (let participantCount =
               length (filter (\<lambda>p. p_booth_id p = operationId) (participants s))
         in case single (filter (\<lambda>x. op_id x = operationId) (booth_operations s)) of
              None \<Rightarrow> (s, EndFailed StorageError)
            | Some row \<Rightarrow>
                (case update_operations s (\<lambda>x. op_id x = operationId)
                        (ended now participantCount) of
                   None \<Rightarrow> (s, EndFailed StorageError)
                 | Some s1 \<Rightarrow>
                     (let data = ended now participantCount row;
                          s2 = (if truthy sessionToken
                                then s1\<lparr>operator_sessions :=
                                       filter (\<lambda>x. Some (session_token x) \<noteq> sessionToken)
                                         (operator_sessions s1)\<rparr>
                                else s1)
                      in (s2\<lparr>ls_current_operation := None, ls_session_token := None\<rparr>,
                          EndOk data (calculateDuration s (started_at data) (ended_at data) now)
                            participantCount)))))"

datatype current_result =
  CurrentFailed op_error | CurrentOk "booth_operation option" "operator_session option"

text \<open>
  \<open>getCurrentOperation\<close>. With the store, the result carries the session as it was read
  and the operation embedded in it (none when the session's operation id matches no row).
  The expiry is tested on \<open>new Date(session.expires_at)\<close>.
\<close>

definition getCurrentOperation ::
  "state \<Rightarrow> string option \<Rightarrow> instant \<Rightarrow> state \<times> current_result" where
  "getCurrentOperation s sessionTokenArg now =
     (let sessionToken = (if truthy sessionTokenArg then sessionTokenArg else ls_session_token s)
      in if \<not> truthy sessionToken then (s, CurrentFailed NoSession)
         else if \<not> getSupabase s then
           (case ls_current_operation s of
              Some operation \<Rightarrow> (s, CurrentOk (Some operation) None)
            | None \<Rightarrow> (s, CurrentFailed NoActiveOperation))
         else
           (case single (filter (\<lambda>x. Some (session_token x) = sessionToken) (operator_sessions s)) of
              None \<Rightarrow> (s, CurrentFailed InvalidSession)
            | Some session \<Rightarrow>
                if parse_local s (expires_at session) < now
                then (s\<lparr>operator_sessions :=
                          filter (\<lambda>x. Some (session_token x) \<noteq> sessionToken) (operator_sessions s),
                        ls_session_token := None, ls_current_operation := None\<rparr>,
                      CurrentFailed SessionExpired)
                else (s\<lparr>operator_sessions :=
                          map (\<lambda>x. if Some (session_token x) = sessionToken
                                    then x\<lparr>last_activity := now\<rparr> else x)
                            (operator_sessions s)\<rparr>,
                      CurrentOk (find (\<lambda>x. Some (op_id x) = booth_operation_id session)
                                   (booth_operations s))
                        (Some session))))"

text \<open>The number of active operations of a booth.\<close>

definition active_count :: "state \<Rightarrow> nat \<Rightarrow> nat" where
  "active_count s boothId = length (active_operations s boothId)"



text \<open>A value that is null, or of at most \<open>n\<close> characters.\<close>

definition short :: "nat \<Rightarrow> string option \<Rightarrow> bool" where
  "short n v = (case v of None \<Rightarrow> True | Some x \<Rightarrow> length x \<le> n)"

text \<open>
  The values of a call that the two inserts store are no longer than their columns: the
  name, the digits of the phone, the e-mail address and the organization, the token and
  the address.
\<close>

definition fits_columns :: "start_call \<Rightarrow> string \<Rightarrow> string \<Rightarrow> bool" where
  "fits_columns c name phone =
     (length name \<le> 100 \<and> length phone \<le> 20
        \<and> short 100 (or_null (oi_email (sc_info c)))
        \<and> short 100 (or_null (oi_organization (sc_info c)))
        \<and> length (sc_token c) \<le> 64
        \<and> short 45 (or_null (oi_ipAddress (sc_info c))))"

section \<open>Concrete states\<close>

text \<open>
  A store with nothing in it, the client present, mock mode off and the browser's zone
  UTC.
\<close>

definition empty_state :: state where
  "empty_state =
     \<lparr>booths = [], booth_operations = [], operator_sessions = [], code_attempts = [],
      participants = [], daily_stats = [], supabase = True, useMockMode = False,
      parse_local = (\<lambda>t. t),
      ls_session_token = None, ls_current_operation = None, ls_operator_session = Absent\<rparr>"

definition booth_a :: booth where
  "booth_a = \<lparr>b_id = 1, b_name = ''Counselling'', booth_code = Some ''AAA000'',
              code_expires_at = None, b_is_active = True, max_operators = Some 1\<rparr>"

definition booth_b :: booth where
  "booth_b = \<lparr>b_id = 2, b_name = ''Careers'', booth_code = Some ''XX4TK0'',
              code_expires_at = None, b_is_active = True, max_operators = None\<rparr>"

text \<open>Draws that are all 0, and all one half.\<close>

definition zero_draws :: "nat \<Rightarrow> real" where
  "zero_draws = (\<lambda>_. 0)"

definition half_draws :: "nat \<Rightarrow> real" where
  "half_draws = (\<lambda>_. 1 / 2)"

text \<open>An instant of 28 August 2025, in milliseconds.\<close>

definition clock0 :: nat where
  "clock0 = 1756347257000"

definition two_booths :: state where
  "two_booths = empty_state\<lparr>booths := [booth_a, booth_b]\<rparr>"

definition t0 :: instant where
  "t0 = 1756347257000"

text \<open>A failed attempt from one address, at a given instant.\<close>

definition failed_attempt :: "instant \<Rightarrow> code_attempt" where
  "failed_attempt t =
     \<lparr>attempted_code = ''ZZZ999'', ca_ip_address = ''10.0.0.1'', attempted_at = t,
      success = False, ca_booth_id = None, error_message = Some WrongCode\<rparr>"

text \<open>Five failed attempts from that address in the last five minutes before \<open>t0\<close>.\<close>

definition blocked_state :: state where
  "blocked_state =
     two_booths\<lparr>code_attempts :=
       map failed_attempt [t0 - 300000, t0 - 240000, t0 - 180000, t0 - 120000, t0 - 60000]\<rparr>"

text \<open>
  Operation 1 runs on booth 2. Booth 1 has two participants, one of them from before the
  operation started; booth 2 has three, all from after its start.
\<close>

definition running_op :: booth_operation where
  "running_op =
     \<lparr>op_id = 1, op_booth_id = 2, operator_name = ''Kim'', operator_phone = Some ''01012345678'',
      operator_email = None, operator_organization = None, started_at = t0 - 2 * hour,
      ended_at = None, op_is_active = True, total_participants = 0, op_notes = None\<rparr>"

definition visitors :: "participant list" where
  "visitors =
     [\<lparr>p_id = 1, p_booth_id = 1, created_at = t0 - 3 * hour\<rparr>,
      \<lparr>p_id = 2, p_booth_id = 1, created_at = t0 - hour\<rparr>,
      \<lparr>p_id = 3, p_booth_id = 2, created_at = t0 - hour\<rparr>,
      \<lparr>p_id = 4, p_booth_id = 2, created_at = t0 - 1800000\<rparr>,
      \<lparr>p_id = 5, p_booth_id = 2, created_at = t0 - 60000\<rparr>]"

definition session_a :: operator_session where
  "session_a =
     \<lparr>session_token = ''tokenA'', booth_operation_id = Some 1, expires_at = t0 + 6 * hour,
      last_activity = t0 - 2 * hour, os_ip_address = None\<rparr>"

definition running_state :: state where
  "running_state =
     two_booths\<lparr>booth_operations := [running_op], operator_sessions := [session_a],
       participants := visitors\<rparr>"

text \<open>The same store after operation 1 was ended half an hour before \<open>t0\<close>; its session is still stored.\<close>

definition closed_op :: booth_operation where
  "closed_op = running_op\<lparr>ended_at := Some (t0 - 1800000), op_is_active := False,
                 total_participants := 2\<rparr>"

definition closed_state :: state where
  "closed_state = running_state\<lparr>booth_operations := [closed_op]\<rparr>"

text \<open>Booth 1, whose limit is one operator, with one active operation.\<close>

definition first_op :: booth_operation where
  "first_op = running_op\<lparr>op_booth_id := 1\<rparr>"

definition full_state :: state where
  "full_state = two_booths\<lparr>booth_operations := [first_op]\<rparr>"

definition operator_lee :: operator_info where
  "operator_lee =
     \<lparr>oi_name = Some ''Lee'', oi_phone = Some ''010-9876-5432'', oi_email = None,
      oi_organization = None, oi_notes = None, oi_ipAddress = None\<rparr>"

text \<open>The running store, with an operator session in the browser's local storage.\<close>

definition local_a :: local_session where
  "local_a =
     \<lparr>ls_operationId = 1, ls_boothId = 2, ls_boothName = ''Careers'', ls_operatorName = ''Kim'',
      ls_startedAt = t0 - 2 * hour, ls_expiresAt = Some (t0 + 22 * hour)\<rparr>"

definition browser_state :: state where
  "browser_state = running_state\<lparr>ls_operator_session := Stored local_a\<rparr>"

text \<open>The running store seen from a browser in which mock mode is switched on.\<close>

definition mock_state :: state where
  "mock_state = running_state\<lparr>useMockMode := True\<rparr>"

text \<open>
  The running store seen from a browser nine hours ahead of UTC, where a time without zone
  is read as the instant nine hours earlier.
\<close>

definition seoul_state :: state where
  "seoul_state = running_state\<lparr>parse_local := (\<lambda>t. t - 9 * hour)\<rparr>"

text \<open>Booth 1 with one active operation that was started 1000 hours before \<open>t0\<close>.\<close>

definition stale_op :: booth_operation where
  "stale_op = first_op\<lparr>started_at := t0 - 1000 * hour\<rparr>"

definition stale_state :: state where
  "stale_state = two_booths\<lparr>booth_operations := [stale_op]\<rparr>"

text \<open>Two calls of the start of the operation module for booth 1, at the same instant.\<close>

definition operator_park :: operator_info where
  "operator_park =
     \<lparr>oi_name = Some ''Park'', oi_phone = Some ''010-1111-2222'', oi_email = None,
      oi_organization = None, oi_notes = None, oi_ipAddress = None\<rparr>"

definition call_lee :: start_call where
  "call_lee = \<lparr>sc_boothId = 1, sc_info = operator_lee, sc_now = t0, sc_token = ''tokenB'',
               sc_newId = 2\<rparr>"

definition call_park :: start_call where
  "call_park = \<lparr>sc_boothId = 1, sc_info = operator_park, sc_now = t0, sc_token = ''tokenC'',
                sc_newId = 3\<rparr>"



text \<open>
  The same operator with a phone number of 23 digits, and with one of three digits.
\<close>

definition operator_long :: operator_info where
  "operator_long = operator_lee\<lparr>oi_phone := Some ''010-9876-5432-1098-7654-3210''\<rparr>"

definition operator_short :: operator_info where
  "operator_short = operator_lee\<lparr>oi_phone := Some ''123''\<rparr>"



text \<open>An address of 46 characters.\<close>

definition long_address :: string where
  "long_address = replicate 46 (CHR ''9'')"
section \<open>Properties\<close>

subsection \<open>Code generator\<close>

lemma floor_index:
  assumes "0 \<le> r" "r < 1" "0 < n"
  shows "0 \<le> \<lfloor>r * real n\<rfloor> \<and> \<lfloor>r * real n\<rfloor> < int n"
proof -
  have "r * real n < 1 * real n"
    using assms by (intro mult_strict_right_mono) auto
  then have "\<lfloor>r * real n\<rfloor> < int n"
    by (simp add: floor_less_iff)
  moreover have "0 \<le> r * real n" using assms by simp
  ultimately show ?thesis by simp
qed

lemma charAt_in:
  assumes "0 \<le> r" "r < 1" "alphabet \<noteq> []"
  shows "\<exists>c \<in> set alphabet. charAt alphabet \<lfloor>r * real (length alphabet)\<rfloor> = [c]"
proof -
  have n: "0 < length alphabet" using assms(3) by simp
  from floor_index [OF assms(1) assms(2) n]
  have b: "0 \<le> \<lfloor>r * real (length alphabet)\<rfloor>"
      "\<lfloor>r * real (length alphabet)\<rfloor> < int (length alphabet)"
    by simp_all
  then have "nat \<lfloor>r * real (length alphabet)\<rfloor> < length alphabet" by linarith
  then have "alphabet ! nat \<lfloor>r * real (length alphabet)\<rfloor> \<in> set alphabet" by (rule nth_mem)
  with b show ?thesis by (auto simp: charAt_def)
qed

lemma draw_chars_ok:
  assumes "\<forall>i. 0 \<le> rnd i \<and> rnd i < 1" "alphabet \<noteq> []"
  shows "length (draw_chars alphabet rnd k n) = n
           \<and> set (draw_chars alphabet rnd k n) \<subseteq> set alphabet"
proof (induction n arbitrary: k)
  case 0
  show ?case by simp
next
  case (Suc n)
  from assms have "0 \<le> rnd k" "rnd k < 1" by auto
  from charAt_in [OF this assms(2)] obtain c where
    "c \<in> set alphabet" "charAt alphabet \<lfloor>rnd k * real (length alphabet)\<rfloor> = [c]" by blast
  with Suc [of "Suc k"] show ?case by simp
qed

lemma generateBoothCode_well_formed:
  assumes "\<forall>i. 0 \<le> rnd i \<and> rnd i < 1"
  shows "well_formed (fst (generateBoothCode rnd k))"
proof -
  have l: "letters \<noteq> []" and d: "numbers \<noteq> []" by (simp_all add: letters_def numbers_def)
  note a = draw_chars_ok [OF assms l, of k 3]
  note b = draw_chars_ok [OF assms d, of "k + 3" 3]
  from a b show ?thesis
    by (auto simp: well_formed_def generateBoothCode_def list_all_iff)
qed

text \<open>A code that leaves the retry loop is one of the candidates, and it passed the check.\<close>

lemma unique_loop_Some:
  "unique_loop s rnd k n = (Some c, k') \<Longrightarrow>
     (\<exists>j. c = fst (generateBoothCode rnd j)) \<and> isCodeUnique s c"
proof (induction n arbitrary: k)
  case 0
  then show ?case by simp
next
  case (Suc n)
  then show ?case
    by (auto simp: generateBoothCode_def split: if_splits)
qed

lemma to_radix_nonempty: "to_radix r n \<noteq> []"
  by (subst to_radix.simps) simp

lemma to_radix36_length:
  assumes "1296 \<le> n"
  shows "3 \<le> length (to_radix 36 n)"
proof -
  have a: "\<not> n < 36" and b: "\<not> n div 36 < 36" using assms by auto
  have "to_radix 36 n =
          to_radix 36 (n div 36 div 36) @ [digit_chars ! (n div 36 mod 36)] @ [digit_chars ! (n mod 36)]"
    using a b by (subst to_radix.simps, subst to_radix.simps) simp
  moreover have "1 \<le> length (to_radix 36 (n div 36 div 36))"
    using to_radix_nonempty [of 36 "n div 36 div 36"]
    by (cases "to_radix 36 (n div 36 div 36)") auto
  ultimately show ?thesis by simp
qed

lemma length_digit_chars: "length digit_chars = 36"
  by (simp add: digit_chars_def)

lemma to_radix36_set: "set (to_radix 36 n) \<subseteq> set digit_chars"
proof (induction "36::nat" n rule: to_radix.induct)
  case (1 n)
  have m: "digit_chars ! (n mod 36) \<in> set digit_chars"
    by (rule nth_mem) (simp add: length_digit_chars)
  show ?case
  proof (cases "n < 36")
    case True
    then have "digit_chars ! n \<in> set digit_chars"
      by (intro nth_mem) (simp add: length_digit_chars)
    with True show ?thesis by (subst to_radix.simps) simp
  next
    case False
    with 1 m show ?thesis by (subst to_radix.simps) simp
  qed
qed

lemma map_upper_digit_chars: "map upper_of digit_chars = numbers @ letters"
  by (simp add: digit_chars_def numbers_def letters_def upper_of_def)

lemma upper_of_digit_char:
  assumes "c \<in> set digit_chars"
  shows "upper_alnum (upper_of c)"
proof -
  from assms have "upper_of c \<in> set (map upper_of digit_chars)" by simp
  then show ?thesis unfolding map_upper_digit_chars upper_alnum_def .
qed

lemma small_digit: "n < 10 \<Longrightarrow> digit_chars ! n \<in> set numbers"
proof -
  assume "n < 10"
  then have "n \<in> set [0..<10]" by simp
  moreover have "\<forall>k \<in> set [0..<10]. digit_chars ! k \<in> set numbers"
    by (simp add: upt_rec digit_chars_def numbers_def)
  ultimately show ?thesis by blast
qed

lemma last_digit:
  fixes r :: real
  assumes "0 \<le> r" "r < 1"
  shows "\<exists>c \<in> set numbers. int_to_string \<lfloor>r * 10\<rfloor> = [c]"
proof -
  have "0 \<le> r * 10" "r * 10 < 10" using assms by simp_all
  then have b: "0 \<le> \<lfloor>r * 10\<rfloor>" "\<lfloor>r * 10\<rfloor> < 10" by (simp_all add: floor_less_iff)
  then have n: "nat \<lfloor>r * 10\<rfloor> < 10" by linarith
  have "to_radix 10 (nat \<lfloor>r * 10\<rfloor>) = [digit_chars ! nat \<lfloor>r * 10\<rfloor>]"
    using n by (subst to_radix.simps) simp
  then have "int_to_string \<lfloor>r * 10\<rfloor> = [digit_chars ! nat \<lfloor>r * 10\<rfloor>]"
    using b by (simp add: int_to_string_def)
  with small_digit [OF n] show ?thesis by simp
qed

lemma fallback_shape:
  assumes "0 \<le> r" "r < 1" "1296 \<le> now"
  shows "fallback_shaped (fallback_code now r)"
proof -
  let ?t = "substr_last3 (to_radix 36 now)"
  have len: "length ?t = 3"
    using to_radix36_length [OF assms(3)] by (simp add: substr_last3_def)
  have sub: "set ?t \<subseteq> set digit_chars"
    using to_radix36_set [of now]
      set_drop_subset [of "length (to_radix 36 now) - 3" "to_radix 36 now"]
    by (auto simp: substr_last3_def)
  have up: "\<forall>c \<in> set (toUpperCase ?t). upper_alnum c"
    using sub upper_of_digit_char by (auto simp: toUpperCase_def)
  have "length (toUpperCase ?t) = 3" using len by (simp add: toUpperCase_def)
  then obtain a b c where abc: "toUpperCase ?t = [a, b, c]"
    by (auto simp: length_Suc_conv numeral_3_eq_3)
  from last_digit [OF assms(1,2)] obtain d where
    d: "d \<in> set numbers" "int_to_string \<lfloor>r * 10\<rfloor> = [d]"
    by blast
  from abc up d show ?thesis by (simp add: fallback_code_def fallback_shaped_def)
qed

lemma single_None_iff: "single xs = None \<longleftrightarrow> length xs \<noteq> 1"
  by (cases xs rule: single.cases) simp_all

lemma distinct_codes_filter:
  "distinct (List.map_filter f bs) \<Longrightarrow> length (filter (\<lambda>b. f b = Some c) bs) \<le> 1"
proof (induction bs)
  case Nil
  show ?case by simp
next
  case (Cons b bs)
  show ?case
  proof (cases "f b = Some c")
    case True
    with Cons.prems have "c \<notin> set (List.map_filter f bs)"
      by (simp add: map_filter_simps)
    then have "filter (\<lambda>b. f b = Some c) bs = []"
      by (auto simp: filter_empty_conv map_filter_def image_iff)
    with True show ?thesis by simp
  next
    case False
    from Cons.prems have "distinct (List.map_filter f bs)"
      by (cases "f b") (simp_all add: map_filter_simps)
    with Cons.IH False show ?thesis by simp
  qed
qed

lemma unique_code_free:
  assumes "isCodeUnique s c" "codes_unique s"
  shows "list_all (\<lambda>b. booth_code b \<noteq> Some c) (booths s)"
proof -
  let ?m = "filter (\<lambda>b. booth_code b = Some c) (booths s)"
  from assms(1) have "length ?m \<noteq> 1"
    by (simp add: isCodeUnique_def single_None_iff split: if_splits)
  moreover from assms(2) have "length ?m \<le> 1"
    unfolding codes_unique_def by (rule distinct_codes_filter)
  ultimately have "length ?m = 0" by linarith
  then have "?m = []" by simp
  then show ?thesis by (simp add: filter_empty_conv list_all_iff)
qed

lemma fallback_clock0: "fallback_code clock0 0 = ''XX4TK0''"
  by (simp add: clock0_def fallback_code_def to_radix.simps toUpperCase_def upper_of_def
      substr_last3_def int_to_string_def digit_chars_def)

lemma zero_draws_code: "generateBoothCode zero_draws k = (''AAA000'', k + 6)"
  by (simp add: generateBoothCode_def zero_draws_def letters_def numbers_def charAt_def
      numeral_3_eq_3)

lemma half_draws_code: "generateBoothCode half_draws k = (''NNN555'', k + 6)"
  by (simp add: generateBoothCode_def half_draws_def letters_def numbers_def charAt_def
      numeral_3_eq_3)

lemma zero_draws_collide:
  "\<not> isCodeUnique s ''AAA000'' \<Longrightarrow> unique_loop s zero_draws k n = (None, k + 6 * n)"
  by (induction n arbitrary: k) (simp_all add: zero_draws_code)

lemma two_booths_taken:
  "\<not> isCodeUnique two_booths ''AAA000'' \<and> \<not> isCodeUnique two_booths ''XX4TK0''
     \<and> isCodeUnique two_booths ''NNN555''"
  by (simp add: isCodeUnique_def two_booths_def empty_state_def booth_a_def booth_b_def)

lemma two_booths_loop_zero: "unique_loop two_booths zero_draws 0 10 = (None, 60)"
  using zero_draws_collide [of two_booths 0 10] two_booths_taken by simp

lemma two_booths_loop_half: "unique_loop two_booths half_draws 0 10 = (Some ''NNN555'', 6)"
proof -
  have "(10::nat) = Suc 9" by simp
  then show ?thesis
    by (simp only: unique_loop.simps half_draws_code) (simp add: two_booths_taken)
qed

lemma two_booths_fallback:
  "fst (generateUniqueBoothCode two_booths 10 zero_draws 0 clock0) = ''XX4TK0''"
proof -
  have "zero_draws 60 = 0" by (simp add: zero_draws_def)
  then show ?thesis
    by (simp add: generateUniqueBoothCode_def two_booths_loop_zero fallback_clock0)
qed

lemma draws_in_range:
  "\<forall>i. 0 \<le> zero_draws i \<and> zero_draws i < 1" "\<forall>i. 0 \<le> half_draws i \<and> half_draws i < 1"
  by (simp_all add: zero_draws_def half_draws_def)

text \<open>
  C9, as amended. With every draw in \<open>[0, 1)\<close>: \<open>generateBoothCode\<close> returns three
  upper-case letters followed by three digits, and so does \<open>generateUniqueBoothCode\<close> when
  one of its candidates passes the check. When all \<open>maxAttempts\<close> candidates collide it
  returns the fallback, which from a clock of at least 1296 ms is six characters: \<open>XX\<close>,
  three characters of 0-9A-Z (the last three base-36 digits of the clock), one digit.
\<close>

theorem generated_code_format:
  assumes "\<forall>i. 0 \<le> rnd i \<and> rnd i < 1"
  shows "well_formed (fst (generateBoothCode rnd k)) \<and>
         (case unique_loop s rnd k maxAttempts of
            (Some c, k') \<Rightarrow>
              fst (generateUniqueBoothCode s maxAttempts rnd k now) = c \<and> well_formed c
          | (None, k') \<Rightarrow>
              fst (generateUniqueBoothCode s maxAttempts rnd k now) = fallback_code now (rnd k')
                \<and> (1296 \<le> now \<longrightarrow> fallback_shaped (fallback_code now (rnd k'))))"
proof -
  obtain r k' where loop: "unique_loop s rnd k maxAttempts = (r, k')"
    by (cases "unique_loop s rnd k maxAttempts")
  have range: "0 \<le> rnd k'" "rnd k' < 1" using assms by simp_all
  have "case (r, k') of
            (Some c, k') \<Rightarrow>
              fst (generateUniqueBoothCode s maxAttempts rnd k now) = c \<and> well_formed c
          | (None, k') \<Rightarrow>
              fst (generateUniqueBoothCode s maxAttempts rnd k now) = fallback_code now (rnd k')
                \<and> (1296 \<le> now \<longrightarrow> fallback_shaped (fallback_code now (rnd k')))"
  proof (cases r)
    case None
    with loop fallback_shape [OF range] show ?thesis
      by (simp add: generateUniqueBoothCode_def)
  next
    case (Some c)
    with loop unique_loop_Some [of s rnd k maxAttempts c k'] obtain j where
      "c = fst (generateBoothCode rnd j)" by blast
    with generateBoothCode_well_formed [OF assms, of j] have "well_formed c" by simp
    with Some loop show ?thesis by (simp add: generateUniqueBoothCode_def)
  qed
  with loop generateBoothCode_well_formed [OF assms, of k] show ?thesis by simp
qed

theorem generated_code_format_witness:
  "(\<forall>i. 0 \<le> half_draws i \<and> half_draws i < 1)
     \<and> well_formed (fst (generateBoothCode half_draws 0))
     \<and> well_formed (fst (generateUniqueBoothCode two_booths 10 half_draws 0 clock0))
     \<and> fallback_shaped (fst (generateUniqueBoothCode two_booths 10 zero_draws 0 clock0))"
proof -
  have c: "(1296::nat) \<le> clock0" by (simp add: clock0_def)
  from generated_code_format [OF draws_in_range(2), where k = 0 and s = two_booths
      and maxAttempts = 10 and now = clock0]
    generated_code_format [OF draws_in_range(1), where k = 0 and s = two_booths
      and maxAttempts = 10 and now = clock0]
    c draws_in_range(2)
  show ?thesis
    by (simp add: two_booths_loop_half two_booths_loop_zero)
qed

text \<open>
  C9 as stated fails on the fallback: with every candidate colliding, the code returned
  at this clock is \<open>XX4TK0\<close>.
\<close>

theorem fallback_code_not_well_formed:
  "\<not> well_formed (fst (generateUniqueBoothCode two_booths 10 zero_draws 0 clock0))"
  by (simp add: two_booths_fallback well_formed_def numbers_def)

text \<open>
  C8, as amended. A code that \<open>generateUniqueBoothCode\<close> returns from its retry loop passed
  \<open>isCodeUnique\<close>, and under the store's uniqueness constraint no booth holds it. After
  \<open>maxAttempts\<close> collisions the fallback is returned as it is, with no check. When
  \<open>assignCodeToBooth\<close> would store a code that another booth holds, the store refuses the
  update and the call reports failure, with the table as it was.
\<close>

theorem generateUnique_checks_candidates:
  "(case unique_loop s rnd k maxAttempts of
      (Some c, k') \<Rightarrow>
        fst (generateUniqueBoothCode s maxAttempts rnd k now) = c \<and> isCodeUnique s c
          \<and> (codes_unique s \<longrightarrow> list_all (\<lambda>b. booth_code b \<noteq> Some c) (booths s))
    | (None, k') \<Rightarrow>
        fst (generateUniqueBoothCode s maxAttempts rnd k now) = fallback_code now (rnd k'))
   \<and> (unique_violation (booths s) boothId (fst (generateUniqueBoothCode s 10 rnd k now))
        \<longrightarrow> assignCodeToBooth s boothId expiryDays rnd k now = (s, AssignFailed))"
proof -
  obtain r k' where loop: "unique_loop s rnd k maxAttempts = (r, k')"
    by (cases "unique_loop s rnd k maxAttempts")
  have "case (r, k') of
      (Some c, k') \<Rightarrow>
        fst (generateUniqueBoothCode s maxAttempts rnd k now) = c \<and> isCodeUnique s c
          \<and> (codes_unique s \<longrightarrow> list_all (\<lambda>b. booth_code b \<noteq> Some c) (booths s))
    | (None, k') \<Rightarrow>
        fst (generateUniqueBoothCode s maxAttempts rnd k now) = fallback_code now (rnd k')"
  proof (cases r)
    case None
    with loop show ?thesis by (simp add: generateUniqueBoothCode_def)
  next
    case (Some c)
    with loop unique_loop_Some [of s rnd k maxAttempts c k'] have u: "isCodeUnique s c" by blast
    with Some loop unique_code_free [OF u] show ?thesis
      by (simp add: generateUniqueBoothCode_def)
  qed
  moreover have "unique_violation (booths s) boothId (fst (generateUniqueBoothCode s 10 rnd k now))
        \<longrightarrow> assignCodeToBooth s boothId expiryDays rnd k now = (s, AssignFailed)"
    by (simp add: assignCodeToBooth_def Let_def)
  ultimately show ?thesis using loop by simp
qed

theorem generateUnique_checks_candidates_witness:
  "codes_unique two_booths
     \<and> fst (generateUniqueBoothCode two_booths 10 half_draws 0 clock0) = ''NNN555''
     \<and> list_all (\<lambda>b. booth_code b \<noteq> Some ''NNN555'') (booths two_booths)
     \<and> unique_violation (booths two_booths) 1
          (fst (generateUniqueBoothCode two_booths 10 zero_draws 0 clock0))
     \<and> assignCodeToBooth two_booths 1 30 zero_draws 0 clock0 = (two_booths, AssignFailed)"
proof -
  have u: "codes_unique two_booths"
    by (simp add: codes_unique_def two_booths_def empty_state_def booth_a_def booth_b_def
        map_filter_simps)
  have v: "unique_violation (booths two_booths) 1 ''XX4TK0''"
    by (simp add: unique_violation_def two_booths_def empty_state_def booth_a_def booth_b_def)
  from generateUnique_checks_candidates [where s = two_booths and rnd = half_draws and k = 0
      and maxAttempts = 10 and now = clock0 and boothId = 1 and expiryDays = 30]
    generateUnique_checks_candidates [where s = two_booths and rnd = zero_draws and k = 0
      and maxAttempts = 10 and now = clock0 and boothId = 1 and expiryDays = 30]
    u v
  show ?thesis
    by (simp add: two_booths_loop_half two_booths_loop_zero two_booths_fallback)
qed

text \<open>
  C8 as stated fails on the fallback: the code returned is one that the second booth
  holds, and \<open>isCodeUnique\<close> would have refused it.
\<close>

theorem fallback_code_unchecked:
  "fst (generateUniqueBoothCode two_booths 10 zero_draws 0 clock0) = ''XX4TK0''
     \<and> booth_code (booths two_booths ! 1) = Some ''XX4TK0''
     \<and> \<not> isCodeUnique two_booths ''XX4TK0''"
proof -
  have "booth_code (booths two_booths ! 1) = Some ''XX4TK0''"
    by (simp add: two_booths_def empty_state_def booth_b_def)
  with two_booths_taken two_booths_fallback show ?thesis by simp
qed

subsection \<open>Code validation and rate limiting\<close>

lemma two_booths_fields:
  "booths two_booths = [booth_a, booth_b]" "supabase two_booths" "\<not> useMockMode two_booths"
  "booth_operations two_booths = []" "operator_sessions two_booths = []"
  "participants two_booths = []" "code_attempts two_booths = []" "daily_stats two_booths = []"
  "parse_local two_booths = (\<lambda>t. t)"
  by (simp_all add: two_booths_def empty_state_def)

lemma blocked_count: "check_ip_attempts (code_attempts blocked_state) ''10.0.0.1'' t0 = 5"
  by (simp add: check_ip_attempts_def blocked_state_def failed_attempt_def hour_def t0_def)

lemma blocked_booths: "booths blocked_state = [booth_a, booth_b]" "supabase blocked_state"
  "parse_local blocked_state = (\<lambda>t. t)"
  by (simp_all add: blocked_state_def two_booths_fields)

lemma fit_short: "length v \<le> n \<Longrightarrow> fit n v = Some v"
  by (simp add: fit_def)

lemma fit_codes:
  "fit 6 ''AAA000'' = Some ''AAA000''" "fit 6 ''XYZ999'' = Some ''XYZ999''"
  "fit 45 ''10.0.0.1'' = Some ''10.0.0.1''" "fit 6 ''AAA0000'' = None" "fit 6 ''XYZ9999'' = None"
  by (simp_all add: fit_def)

text \<open>The count of \<open>check_ip_attempts\<close>, with the three conditions in the order of C3.\<close>

lemma check_ip_attempts_eq:
  "check_ip_attempts attempts ip now =
     length (filter (\<lambda>x. ca_ip_address x = ip \<and> \<not> success x \<and> now - hour < attempted_at x)
               attempts)"
  unfolding check_ip_attempts_def
  by (rule arg_cong [where f = length], rule filter_cong) auto

lemma validate_message_cases:
  assumes "fit 6 code = Some c" "fit 45 ip = Some a"
  shows "snd (validate_booth_code s code ip now) = Some (refusal MsgTooMany)
           \<longleftrightarrow> 5 \<le> check_ip_attempts (code_attempts s) ip now"
  using assms
  by (auto simp: validate_booth_code_def record_and_return_def insert_attempt_def refusal_def
      split: list.splits option.splits)

lemma validate_blocked:
  assumes "fit 6 code = Some c" "fit 45 ip = Some a"
    and "5 \<le> check_ip_attempts (code_attempts s) ip now"
  shows "validate_booth_code (s\<lparr>booths := bs\<rparr>) code ip now =
           (s\<lparr>booths := bs, code_attempts := code_attempts s @
                [\<lparr>attempted_code = c, ca_ip_address = a, attempted_at = now, success = False,
                  ca_booth_id = None, error_message = Some TooManyAttempts\<rparr>]\<rparr>,
            Some (refusal MsgTooMany))"
  using assms
  by (simp add: validate_booth_code_def record_and_return_def insert_attempt_def)

lemma validate_ignores_uncounted:
  assumes "success x \<or> attempted_at x \<le> now - hour"
  shows "snd (validate_booth_code (s\<lparr>code_attempts := code_attempts s @ [x]\<rparr>) code ip now) =
         snd (validate_booth_code s code ip now)"
proof -
  from assms have "check_ip_attempts (code_attempts s @ [x]) ip now =
      check_ip_attempts (code_attempts s) ip now"
    by (auto simp: check_ip_attempts_def)
  then show ?thesis
    by (auto simp: validate_booth_code_def record_and_return_def insert_attempt_def
        split: list.splits option.splits)
qed

lemma client_validation_reads_booths_only:
  "validateBoothCode (s\<lparr>code_attempts := attempts\<rparr>) code now =
     (s\<lparr>code_attempts := attempts\<rparr>, snd (validateBoothCode s code now))"
  by (simp add: validateBoothCode_def split: option.splits)

text \<open>
  C3, as amended. For a code and an address that fit the columns of the attempts table,
  the stored function \<open>validate_booth_code\<close> returns the too-many-attempts refusal exactly
  when the address has at least five failed attempts with \<open>attempted_at\<close> later than one
  hour before now, and it then records one failed attempt and returns the same whatever
  the booths table holds, so the code is not looked up. A successful attempt, and an
  attempt made one hour ago or earlier, added to the log, change nothing in what the
  function returns. The client-side \<open>validateBoothCode\<close> of the booth-code module has no
  rate limit: what it returns is the same whatever the log of attempts holds.
\<close>

theorem rate_limit_short_circuit:
  "(fit 6 code = Some c \<and> fit 45 ip = Some a \<longrightarrow>
      (snd (validate_booth_code s code ip now) = Some (refusal MsgTooMany)
         \<longleftrightarrow> 5 \<le> length (filter (\<lambda>x. ca_ip_address x = ip \<and> \<not> success x
                                       \<and> now - hour < attempted_at x) (code_attempts s)))
      \<and> (5 \<le> length (filter (\<lambda>x. ca_ip_address x = ip \<and> \<not> success x
                                  \<and> now - hour < attempted_at x) (code_attempts s)) \<longrightarrow>
           validate_booth_code (s\<lparr>booths := bs\<rparr>) code ip now =
             (s\<lparr>booths := bs, code_attempts := code_attempts s @
                  [\<lparr>attempted_code = c, ca_ip_address = a, attempted_at = now, success = False,
                    ca_booth_id = None, error_message = Some TooManyAttempts\<rparr>]\<rparr>,
              Some (refusal MsgTooMany))))
   \<and> (success x \<or> attempted_at x \<le> now - hour \<longrightarrow>
        snd (validate_booth_code (s\<lparr>code_attempts := code_attempts s @ [x]\<rparr>) code ip now) =
        snd (validate_booth_code s code ip now))
   \<and> validateBoothCode (s\<lparr>code_attempts := attempts\<rparr>) code now =
        (s\<lparr>code_attempts := attempts\<rparr>, snd (validateBoothCode s code now))"
  using validate_message_cases [where code = code and c = c and ip = ip and a = a and s = s
      and now = now]
    validate_blocked [where code = code and c = c and ip = ip and a = a and s = s and now = now
      and bs = bs]
    validate_ignores_uncounted [where x = x and now = now and s = s and code = code and ip = ip]
    client_validation_reads_booths_only [where s = s and attempts = attempts and code = code
      and now = now]
  by (simp add: check_ip_attempts_eq)

theorem rate_limit_short_circuit_witness:
  "5 \<le> length (filter (\<lambda>x. ca_ip_address x = ''10.0.0.1'' \<and> \<not> success x
                           \<and> t0 - hour < attempted_at x) (code_attempts blocked_state))
   \<and> snd (validate_booth_code blocked_state ''AAA000'' ''10.0.0.1'' t0) = Some (refusal MsgTooMany)
   \<and> length (code_attempts (fst (validate_booth_code blocked_state ''AAA000'' ''10.0.0.1'' t0))) = 6
   \<and> snd (validate_booth_code
            (blocked_state\<lparr>code_attempts := code_attempts blocked_state @ [failed_attempt (t0 - hour)]\<rparr>)
            ''AAA000'' ''10.0.0.1'' t0) = Some (refusal MsgTooMany)"
proof -
  have c: "length (filter (\<lambda>x. ca_ip_address x = ''10.0.0.1'' \<and> \<not> success x
                            \<and> t0 - hour < attempted_at x) (code_attempts blocked_state)) = 5"
    using blocked_count by (simp add: check_ip_attempts_eq)
  have l: "length (code_attempts blocked_state) = 5" by (simp add: blocked_state_def)
  have b: "blocked_state\<lparr>booths := booths blocked_state\<rparr> = blocked_state" by simp
  have o: "attempted_at (failed_attempt (t0 - hour)) \<le> t0 - hour" by (simp add: failed_attempt_def)
  note r = rate_limit_short_circuit [where s = blocked_state and bs = "booths blocked_state"
      and ip = "''10.0.0.1''" and now = t0 and code = "''AAA000''" and c = "''AAA000''"
      and a = "''10.0.0.1''" and x = "failed_attempt (t0 - hour)"
      and attempts = "code_attempts blocked_state"]
  from r c have 1: "snd (validate_booth_code blocked_state ''AAA000'' ''10.0.0.1'' t0) =
      Some (refusal MsgTooMany)"
    by (simp add: fit_codes)
  from r c have "validate_booth_code blocked_state ''AAA000'' ''10.0.0.1'' t0 =
      (blocked_state\<lparr>code_attempts := code_attempts blocked_state @
          [\<lparr>attempted_code = ''AAA000'', ca_ip_address = ''10.0.0.1'', attempted_at = t0,
            success = False, ca_booth_id = None, error_message = Some TooManyAttempts\<rparr>]\<rparr>,
       Some (refusal MsgTooMany))"
    by (simp add: fit_codes b)
  then have 2: "length (code_attempts
      (fst (validate_booth_code blocked_state ''AAA000'' ''10.0.0.1'' t0))) = 6"
    by (simp add: l)
  from r o 1 have 3: "snd (validate_booth_code
            (blocked_state\<lparr>code_attempts := code_attempts blocked_state @ [failed_attempt (t0 - hour)]\<rparr>)
            ''AAA000'' ''10.0.0.1'' t0) = Some (refusal MsgTooMany)"
    by simp
  from c 1 2 3 show ?thesis by simp
qed

text \<open>
  C3 as stated fails twice. On the client-side validation: five failed attempts are on
  record for the address within the hour, and the code is still looked up and accepted.
  In the stored function: for the same address a code of seven characters is not refused
  as rate-limited, the insert of the attempt raises and the function returns nothing.
\<close>

theorem client_validation_not_rate_limited:
  "check_ip_attempts (code_attempts blocked_state) ''10.0.0.1'' t0 = 5
     \<and> validateBoothCode blocked_state ''AAA000'' t0 = (blocked_state, Valid 1 ''Counselling'')
     \<and> validate_booth_code blocked_state ''AAA0000'' ''10.0.0.1'' t0 = (blocked_state, None)"
  using blocked_count
  by (simp add: validateBoothCode_def blocked_booths booth_a_def booth_b_def
      validate_booth_code_def record_and_return_def insert_attempt_def fit_codes)

text \<open>
  C4, as amended. For a code and an address that fit the columns of the attempts table,
  every call of the stored function \<open>validate_booth_code\<close> appends exactly one attempt and
  changes nothing else: the attempt carries the code, the address and the instant of the
  call, its success flag is the validity returned, and its reason is the one that belongs
  to the returned message (none on success). A code that no booth holds is recorded as
  failed with the wrong-code reason. The client-side \<open>validateBoothCode\<close> of the booth-code
  module leaves the state as it was on every call: it records nothing.
\<close>

theorem validation_records_one_attempt:
  "(fit 6 code = Some c \<and> fit 45 ip = Some a \<longrightarrow>
      (\<exists>row r. validate_booth_code s code ip now =
                  (s\<lparr>code_attempts := code_attempts s @ [row]\<rparr>, Some r)
         \<and> attempted_code row = c \<and> ca_ip_address row = a \<and> attempted_at row = now
         \<and> success row = is_valid r
         \<and> error_message row = reason_of (v_message r)
         \<and> (check_ip_attempts (code_attempts s) ip now < 5
              \<and> filter (\<lambda>b. booth_code b = Some code) (booths s) = []
            \<longrightarrow> \<not> success row \<and> error_message row = Some WrongCode)))
   \<and> fst (validateBoothCode s code now) = s"
proof -
  have "fst (validateBoothCode s code now) = s"
    by (simp add: validateBoothCode_def split: option.splits)
  moreover have "\<exists>row r. validate_booth_code s code ip now =
                  (s\<lparr>code_attempts := code_attempts s @ [row]\<rparr>, Some r)
         \<and> attempted_code row = c \<and> ca_ip_address row = a \<and> attempted_at row = now
         \<and> success row = is_valid r
         \<and> error_message row = reason_of (v_message r)
         \<and> (check_ip_attempts (code_attempts s) ip now < 5
              \<and> filter (\<lambda>b. booth_code b = Some code) (booths s) = []
            \<longrightarrow> \<not> success row \<and> error_message row = Some WrongCode)"
    if "fit 6 code = Some c" "fit 45 ip = Some a"
    using that
    by (auto simp: validate_booth_code_def record_and_return_def insert_attempt_def refusal_def
        split: list.splits option.splits)
  ultimately show ?thesis by blast
qed

theorem validation_records_one_attempt_witness:
  "map (\<lambda>a. (attempted_code a, ca_ip_address a, success a, error_message a))
     (code_attempts (fst (validate_booth_code two_booths ''XYZ999'' ''10.0.0.1'' t0))) =
      [(''XYZ999'', ''10.0.0.1'', False, Some WrongCode)]"
proof -
  have "check_ip_attempts (code_attempts two_booths) ''10.0.0.1'' t0 < 5"
    by (simp add: two_booths_fields check_ip_attempts_def)
  moreover have "filter (\<lambda>b. booth_code b = Some ''XYZ999'') (booths two_booths) = []"
    by (simp add: two_booths_fields booth_a_def booth_b_def)
  ultimately show ?thesis
    using validation_records_one_attempt [where s = two_booths and code = "''XYZ999''"
        and ip = "''10.0.0.1''" and now = t0 and c = "''XYZ999''" and a = "''10.0.0.1''"]
    by (auto simp: two_booths_fields fit_codes)
qed

lemma long_address_refused: "fit 45 long_address = None"
  by (simp add: fit_def long_address_def)

text \<open>
  C4 as stated fails twice. On the client-side validation: a code that no booth holds is
  refused and no attempt is recorded. In the stored function: with a code of seven
  characters, or an address of 46, the insert of the attempt raises, and the call records
  nothing.
\<close>

theorem client_validation_records_nothing:
  "validateBoothCode two_booths ''XYZ999'' t0 = (two_booths, Invalid InvalidCode)
     \<and> code_attempts two_booths = []
     \<and> validate_booth_code two_booths ''XYZ9999'' ''10.0.0.1'' t0 = (two_booths, None)
     \<and> validate_booth_code two_booths ''XYZ999'' long_address t0 = (two_booths, None)"
  by (simp add: validateBoothCode_def two_booths_fields booth_a_def booth_b_def
      validate_booth_code_def record_and_return_def insert_attempt_def fit_codes
      check_ip_attempts_def long_address_refused)

subsection \<open>Sessions and the end of an operation\<close>

lemma running_state_fields:
  "booths running_state = [booth_a, booth_b]" "getSupabase running_state"
  "booth_operations running_state = [running_op]" "operator_sessions running_state = [session_a]"
  "participants running_state = visitors" "daily_stats running_state = []"
  "parse_local running_state = (\<lambda>t. t)"
  by (simp_all add: running_state_def getSupabase_def two_booths_fields)

lemma closed_state_fields:
  "booths closed_state = [booth_a, booth_b]" "getSupabase closed_state"
  "booth_operations closed_state = [closed_op]" "operator_sessions closed_state = [session_a]"
  "participants closed_state = visitors" "daily_stats closed_state = []"
  "parse_local closed_state = (\<lambda>t. t)" "supabase closed_state"
  by (simp_all add: closed_state_def getSupabase_def running_state_fields running_state_def
      two_booths_fields)

lemma seoul_state_fields:
  "getSupabase seoul_state" "operator_sessions seoul_state = [session_a]"
  "parse_local seoul_state = (\<lambda>t. t - 9 * hour)"
  by (simp_all add: seoul_state_def getSupabase_def running_state_def two_booths_fields)

lemma closed_op_fields:
  "op_id closed_op = 1" "op_booth_id closed_op = 2" "\<not> op_is_active closed_op"
  "ended_at closed_op = Some (t0 - 1800000)" "total_participants closed_op = 2"
  "started_at closed_op = t0 - 2 * hour"
  by (simp_all add: closed_op_def running_op_def)

lemma running_op_fields:
  "op_id running_op = 1" "op_booth_id running_op = 2" "op_is_active running_op"
  "ended_at running_op = None" "started_at running_op = t0 - 2 * hour"
  by (simp_all add: running_op_def)

lemma session_a_fields:
  "session_token session_a = ''tokenA''" "booth_operation_id session_a = Some 1"
  "expires_at session_a = t0 + 6 * hour"
  by (simp_all add: session_a_def)

text \<open>
  C5, as amended. With the store available and a browser that reads the stored
  \<open>expires_at\<close> back as the instant that was written, \<open>getCurrentOperation\<close> rejects a
  stored session as expired exactly when its \<open>expires_at\<close> is earlier than now, and then
  deletes the session. \<open>getOperatorSession\<close> returns nothing for a stored session exactly
  when its \<open>expiresAt\<close> is set and earlier than now, and then removes it from local storage.
  A session that has not expired resolves successfully whatever the state of its
  operation: whether the operation is closed is not checked.
\<close>

theorem session_expiry:
  "(getSupabase s \<and> truthy tok
      \<and> single (filter (\<lambda>x. Some (session_token x) = tok) (operator_sessions s)) = Some session
      \<and> parse_local s (expires_at session) = expires_at session \<longrightarrow>
        (snd (getCurrentOperation s tok now) = CurrentFailed SessionExpired
            \<longleftrightarrow> expires_at session < now)
        \<and> (expires_at session < now \<longrightarrow>
             operator_sessions (fst (getCurrentOperation s tok now)) =
               filter (\<lambda>x. Some (session_token x) \<noteq> tok) (operator_sessions s))
        \<and> (\<not> expires_at session < now \<longrightarrow>
             snd (getCurrentOperation s tok now) =
               CurrentOk (find (\<lambda>x. Some (op_id x) = booth_operation_id session)
                            (booth_operations s)) (Some session)))
   \<and> (ls_operator_session s = Stored stored \<longrightarrow>
        (snd (getOperatorSession s now) = None
           \<longleftrightarrow> (case ls_expiresAt stored of None \<Rightarrow> False | Some e \<Rightarrow> e < now))
        \<and> (snd (getOperatorSession s now) = None \<longrightarrow>
             ls_operator_session (fst (getOperatorSession s now)) = Absent))"
  by (simp add: getCurrentOperation_def getOperatorSession_def)

lemma browser_state_fields:
  "getSupabase browser_state" "operator_sessions browser_state = [session_a]"
  "booth_operations browser_state = [running_op]"
  "ls_operator_session browser_state = Stored local_a"
  "parse_local browser_state = (\<lambda>t. t)"
  by (simp_all add: browser_state_def getSupabase_def running_state_def two_booths_fields)

theorem session_expiry_witness:
  "snd (getCurrentOperation browser_state (Some ''tokenA'') (t0 + 7 * hour)) =
      CurrentFailed SessionExpired
   \<and> operator_sessions (fst (getCurrentOperation browser_state (Some ''tokenA'') (t0 + 7 * hour))) = []
   \<and> snd (getCurrentOperation browser_state (Some ''tokenA'') t0) =
      CurrentOk (Some running_op) (Some session_a)
   \<and> snd (getOperatorSession browser_state (t0 + 25 * hour)) = None
   \<and> ls_operator_session (fst (getOperatorSession browser_state (t0 + 25 * hour))) = Absent
   \<and> snd (getOperatorSession browser_state t0) \<noteq> None"
proof -
  have p: "getSupabase browser_state \<and> truthy (Some ''tokenA'')
      \<and> single (filter (\<lambda>x. Some (session_token x) = Some ''tokenA'')
             (operator_sessions browser_state)) = Some session_a
      \<and> parse_local browser_state (expires_at session_a) = expires_at session_a"
    by (simp add: browser_state_fields session_a_fields)
  have o: "op_id running_op = 1" by (simp add: running_op_def)
  have e: "ls_expiresAt local_a = Some (t0 + 22 * hour)" by (simp add: local_a_def)
  note a = session_expiry [where s = browser_state and tok = "Some ''tokenA''"
      and session = session_a and now = "t0 + 7 * hour" and stored = local_a]
  note b = session_expiry [where s = browser_state and tok = "Some ''tokenA''"
      and session = session_a and now = t0 and stored = local_a]
  note c = session_expiry [where s = browser_state and tok = "Some ''tokenA''"
      and session = session_a and now = "t0 + 25 * hour" and stored = local_a]
  from a p have 1: "snd (getCurrentOperation browser_state (Some ''tokenA'') (t0 + 7 * hour)) =
      CurrentFailed SessionExpired
   \<and> operator_sessions (fst (getCurrentOperation browser_state (Some ''tokenA'') (t0 + 7 * hour))) = []"
    by (simp add: browser_state_fields(2) session_a_fields hour_def)
  from b p have 2: "snd (getCurrentOperation browser_state (Some ''tokenA'') t0) =
      CurrentOk (Some running_op) (Some session_a)"
    by (simp add: browser_state_fields(3) session_a_fields o hour_def)
  from c have 3: "snd (getOperatorSession browser_state (t0 + 25 * hour)) = None
   \<and> ls_operator_session (fst (getOperatorSession browser_state (t0 + 25 * hour))) = Absent"
    by (simp add: browser_state_fields(4) e hour_def)
  from b have 4: "snd (getOperatorSession browser_state t0) \<noteq> None"
    by (simp add: browser_state_fields(4) e hour_def)
  from 1 2 3 4 show ?thesis by simp
qed

text \<open>
  C5 as stated fails twice. A session whose operation is closed still resolves before its
  expiry, with the closed operation in the result. And in a browser nine hours ahead of
  UTC a session that expires six hours after \<open>t0\<close> is rejected as expired at \<open>t0\<close>, and
  deleted.
\<close>

theorem session_of_closed_operation_resolves:
  "snd (getCurrentOperation closed_state (Some ''tokenA'') t0) =
      CurrentOk (Some closed_op) (Some session_a)
     \<and> \<not> op_is_active closed_op \<and> ended_at closed_op = Some (t0 - 1800000)
     \<and> t0 < expires_at session_a
     \<and> snd (getCurrentOperation seoul_state (Some ''tokenA'') t0) = CurrentFailed SessionExpired
     \<and> operator_sessions (fst (getCurrentOperation seoul_state (Some ''tokenA'') t0)) = []"
  by (simp add: getCurrentOperation_def closed_state_fields closed_op_fields session_a_fields
      seoul_state_fields hour_def)

text \<open>
  C10, as amended. A call of \<open>endBoothOperation\<close> supplies a non-empty session token for
  which no stored session has both that token and the operation id of the call. With the
  store available, the call fails with the invalid-session error and leaves the whole
  state, and so the operation row, unchanged. In mock mode no session is looked up: the
  call clears the two local-storage entries, touches no table and reports success.
\<close>

theorem end_refused_without_matching_session:
  assumes "truthy tok"
    and "\<not> list_ex (\<lambda>x. Some (session_token x) = tok \<and> booth_operation_id x = Some operationId)
             (operator_sessions s)"
  shows "(getSupabase s \<longrightarrow>
            endBoothOperation s operationId tok now = (s, EndFailed InvalidSession))
       \<and> (\<not> getSupabase s \<longrightarrow>
            endBoothOperation s operationId tok now =
              (s\<lparr>ls_current_operation := None, ls_session_token := None\<rparr>, EndOkMock))"
proof -
  have "session_refused s operationId tok"
  proof (cases "single (filter (\<lambda>x. Some (session_token x) = tok) (operator_sessions s))")
    case None
    with assms(1) show ?thesis by (simp add: session_refused_def)
  next
    case (Some session)
    then have "filter (\<lambda>x. Some (session_token x) = tok) (operator_sessions s) = [session]"
      by (cases "filter (\<lambda>x. Some (session_token x) = tok) (operator_sessions s)"
          rule: single.cases) simp_all
    then have "session \<in> set (filter (\<lambda>x. Some (session_token x) = tok) (operator_sessions s))"
      by simp
    then have "session \<in> set (operator_sessions s)" "Some (session_token session) = tok"
      by simp_all
    with assms(2) have "booth_operation_id session \<noteq> Some operationId"
      by (auto simp: list_ex_iff)
    with Some assms(1) show ?thesis by (simp add: session_refused_def)
  qed
  then show ?thesis by (simp add: endBoothOperation_def)
qed

theorem end_refused_without_matching_session_witness:
  "endBoothOperation running_state 1 (Some ''forged'') t0 = (running_state, EndFailed InvalidSession)
   \<and> endBoothOperation running_state 5 (Some ''tokenA'') t0 = (running_state, EndFailed InvalidSession)
   \<and> booth_operations running_state = [running_op]"
proof -
  have a: "\<not> list_ex (\<lambda>x. Some (session_token x) = Some ''forged'' \<and> booth_operation_id x = Some 1)
             (operator_sessions running_state)"
    by (simp add: running_state_fields session_a_fields)
  have b: "\<not> list_ex (\<lambda>x. Some (session_token x) = Some ''tokenA'' \<and> booth_operation_id x = Some 5)
             (operator_sessions running_state)"
    by (simp add: running_state_fields session_a_fields)
  have t: "truthy (Some ''forged'')" "truthy (Some ''tokenA'')" by simp_all
  from end_refused_without_matching_session [OF t(1) a, of t0]
    end_refused_without_matching_session [OF t(2) b, of t0]
  show ?thesis by (simp add: running_state_fields)
qed

text \<open>
  C10 as stated fails in mock mode: no stored session has the token, and the call reports
  success.
\<close>

theorem end_in_mock_mode_succeeds:
  "\<not> list_ex (\<lambda>x. Some (session_token x) = Some ''forged'' \<and> booth_operation_id x = Some 1)
       (operator_sessions mock_state)
   \<and> snd (endBoothOperation mock_state 1 (Some ''forged'') t0) = EndOkMock"
  by (simp add: endBoothOperation_def getSupabase_def mock_state_def running_state_def
      session_a_fields)

lemma visitors_of_booth:
  "length (filter (\<lambda>p. p_booth_id p = 1) visitors) = 2"
  "length (filter (\<lambda>p. p_booth_id p = Suc 0) visitors) = 2"
  "length (filter (\<lambda>p. p_booth_id p = 2 \<and> started_at running_op \<le> created_at p) visitors) = 3"
  by (simp_all add: visitors_def running_op_def hour_def)

lemma update_closed_row:
  assumes "single (filter (\<lambda>x. op_id x = operationId) (booth_operations s)) = Some row"
    and "ended_at row \<noteq> None"
  shows "update_operations s (\<lambda>x. op_id x = operationId) change =
           Some (s\<lparr>booth_operations :=
                    map (\<lambda>x. if op_id x = operationId then change x else x) (booth_operations s)\<rparr>)"
proof -
  from assms(1) have "filter (\<lambda>x. op_id x = operationId) (booth_operations s) = [row]"
    by (cases "filter (\<lambda>x. op_id x = operationId) (booth_operations s)" rule: single.cases)
      simp_all
  with assms(2) show ?thesis
    by (auto simp: update_operations_def)
qed

lemma after_update_closed:
  "list_all (\<lambda>p. ended_at (fst p) \<noteq> None) pairs \<Longrightarrow> after_update stats pairs = Some stats"
  by (induction pairs) (auto split: option.splits)

lemma update_closed_rows:
  assumes "list_all (\<lambda>x. op_id x = operationId \<longrightarrow> ended_at x \<noteq> None) (booth_operations s)"
  shows "update_operations s (\<lambda>x. op_id x = operationId) change =
           Some (s\<lparr>booth_operations :=
                    map (\<lambda>x. if op_id x = operationId then change x else x) (booth_operations s)\<rparr>)"
proof -
  from assms have "list_all (\<lambda>p. ended_at (fst p) \<noteq> None)
      (map (\<lambda>x. (x, change x)) (filter (\<lambda>x. op_id x = operationId) (booth_operations s)))"
    by (simp add: list_all_iff)
  from after_update_closed [OF this] show ?thesis
    by (simp add: update_operations_def)
qed

text \<open>After a successful end with a token, no session has that token any more.\<close>

lemma end_deletes_session:
  assumes "getSupabase s" "truthy tok"
    and "snd (endBoothOperation s operationId tok now) = EndOk data d n"
  shows "getSupabase (fst (endBoothOperation s operationId tok now))
       \<and> session_refused (fst (endBoothOperation s operationId tok now)) operationId tok"
  using assms
  by (auto simp: endBoothOperation_def Let_def update_operations_def getSupabase_def
      session_refused_def split: option.splits if_splits)

text \<open>
  C2, as amended. Ending an operation that is already closed is not a no-op success. With
  the store available, \<open>endBoothOperation\<close> of the operation module
  \<^item> fails with the invalid-session error and writes nothing when it is called with a
    session token that no stored session binds to the operation, which is what a repeat
    of a successful end with the same token meets, because that end deleted the session;
  \<^item> succeeds when it is called without a token, or with a token still bound to the
    operation, on the one row of that id, already ended, and writes the row again:
    \<open>ended_at\<close> becomes the instant of this call, \<open>is_active\<close> stays false and
    \<open>total_participants\<close> is set to the number that this call has counted.

  In mock mode it reports success and writes to no table. \<open>endBoothOperation\<close> of the
  booth-code module, on an operation already closed, reports success and sets \<open>ended_at\<close>
  to the instant of the call.
\<close>

theorem end_of_closed_operation:
  "(getSupabase s \<and> session_refused s operationId tok \<longrightarrow>
      endBoothOperation s operationId tok now = (s, EndFailed InvalidSession))
   \<and> (getSupabase s \<and> truthy tok
        \<and> snd (endBoothOperation s operationId tok before) = EndOk data d n \<longrightarrow>
        endBoothOperation (fst (endBoothOperation s operationId tok before)) operationId tok now =
          (fst (endBoothOperation s operationId tok before), EndFailed InvalidSession))
   \<and> (getSupabase s \<and> \<not> session_refused s operationId tok
        \<and> single (filter (\<lambda>x. op_id x = operationId) (booth_operations s)) = Some row
        \<and> ended_at row \<noteq> None \<longrightarrow>
        (\<exists>n. snd (endBoothOperation s operationId tok now) =
               EndOk (ended now n row) (calculateDuration s (started_at row) (Some now) now) n
           \<and> booth_operations (fst (endBoothOperation s operationId tok now)) =
               map (\<lambda>x. if op_id x = operationId then ended now n x else x)
                 (booth_operations s)))
   \<and> (\<not> getSupabase s \<longrightarrow>
        endBoothOperation s operationId tok now =
          (s\<lparr>ls_current_operation := None, ls_session_token := None\<rparr>, EndOkMock))
   \<and> (supabase s
        \<and> list_all (\<lambda>x. op_id x = operationId \<longrightarrow> ended_at x \<noteq> None) (booth_operations s) \<longrightarrow>
        code_endBoothOperation s operationId now =
          (s\<lparr>booth_operations :=
               map (\<lambda>x. if op_id x = operationId then closed_at now x else x)
                 (booth_operations s)\<rparr>, True))"
proof -
  have 1: "endBoothOperation s operationId tok now = (s, EndFailed InvalidSession)"
    if "getSupabase s" "session_refused s operationId tok"
    using that by (simp add: endBoothOperation_def)
  have 2: "endBoothOperation (fst (endBoothOperation s operationId tok before)) operationId tok now =
             (fst (endBoothOperation s operationId tok before), EndFailed InvalidSession)"
    if "getSupabase s" "truthy tok"
      "snd (endBoothOperation s operationId tok before) = EndOk data d n"
    using end_deletes_session [OF that] by (simp add: endBoothOperation_def)
  have 3: "\<exists>n. snd (endBoothOperation s operationId tok now) =
               EndOk (ended now n row) (calculateDuration s (started_at row) (Some now) now) n
           \<and> booth_operations (fst (endBoothOperation s operationId tok now)) =
               map (\<lambda>x. if op_id x = operationId then ended now n x else x)
                 (booth_operations s)"
    if "getSupabase s" "\<not> session_refused s operationId tok"
      "single (filter (\<lambda>x. op_id x = operationId) (booth_operations s)) = Some row"
      "ended_at row \<noteq> None"
  proof -
    have "snd (endBoothOperation s operationId tok now) =
          EndOk (ended now (length (filter (\<lambda>p. p_booth_id p = operationId) (participants s))) row)
            (calculateDuration s (started_at row) (Some now) now)
            (length (filter (\<lambda>p. p_booth_id p = operationId) (participants s)))
        \<and> booth_operations (fst (endBoothOperation s operationId tok now)) =
            map (\<lambda>x. if op_id x = operationId
                      then ended now
                             (length (filter (\<lambda>p. p_booth_id p = operationId) (participants s))) x
                      else x) (booth_operations s)"
      using that(1,2,3) update_closed_row [OF that(3,4)]
      by (simp add: endBoothOperation_def Let_def ended_def)
    then show ?thesis by blast
  qed
  have 4: "endBoothOperation s operationId tok now =
          (s\<lparr>ls_current_operation := None, ls_session_token := None\<rparr>, EndOkMock)"
    if "\<not> getSupabase s"
    using that by (simp add: endBoothOperation_def)
  have 5: "code_endBoothOperation s operationId now =
          (s\<lparr>booth_operations :=
               map (\<lambda>x. if op_id x = operationId then closed_at now x else x)
                 (booth_operations s)\<rparr>, True)"
    if "supabase s"
      "list_all (\<lambda>x. op_id x = operationId \<longrightarrow> ended_at x \<noteq> None) (booth_operations s)"
    using that(1) update_closed_rows [OF that(2)]
    by (simp add: code_endBoothOperation_def)
  from 1 2 3 4 5 show ?thesis by blast
qed

lemma running_end:
  "endBoothOperation running_state 1 (Some ''tokenA'') t0 =
     (running_state\<lparr>booth_operations := [ended t0 2 running_op],
        daily_stats := [\<lparr>ds_booth_id = 2, ds_date = (t0 - 2 * hour) div 86400000,
                         operator_count = 1, operation_hours = 200\<rparr>],
        operator_sessions := [], ls_current_operation := None, ls_session_token := None\<rparr>,
      EndOk (ended t0 2 running_op) \<lparr>hours = 2, minutes = 0, totalMinutes = 120\<rparr> 2)"
proof -
  have h: "hours_hundredths (t0 - 2 * hour) t0 = 200"
    by (simp add: hours_hundredths_def hour_def)
  have e: "ended_at (ended t0 2 running_op) = Some t0"
    "started_at (ended t0 2 running_op) = t0 - 2 * hour"
    "op_booth_id (ended t0 2 running_op) = 2"
    by (simp_all add: ended_def running_op_def)
  have u: "update_operations running_state (\<lambda>x. op_id x = 1) (ended t0 2) =
      Some (running_state\<lparr>booth_operations := [ended t0 2 running_op],
        daily_stats := [\<lparr>ds_booth_id = 2, ds_date = (t0 - 2 * hour) div 86400000,
                         operator_count = 1, operation_hours = 200\<rparr>]\<rparr>)"
    by (simp add: update_operations_def running_state_fields running_op_fields e
        record_operation_end_def h decimal_5_2_def)
  have d: "calculateDuration running_state (t0 - 2 * hour) (Some t0) t0 =
      \<lparr>hours = 2, minutes = 0, totalMinutes = 120\<rparr>"
    by (simp add: calculateDuration_def running_state_fields js_rem_def hour_def)
  show ?thesis
    by (simp add: endBoothOperation_def running_state_fields running_op_fields
        session_refused_def session_a_fields visitors_of_booth u [unfolded One_nat_def] e d Let_def)
qed

theorem end_of_closed_operation_witness:
  "map ended_at (booth_operations (fst (endBoothOperation closed_state 1 None t0))) = [Some t0]
   \<and> map op_is_active (booth_operations (fst (endBoothOperation closed_state 1 None t0))) = [False]
   \<and> snd (endBoothOperation (fst (endBoothOperation running_state 1 (Some ''tokenA'') t0)) 1
            (Some ''tokenA'') (t0 + 1000)) = EndFailed InvalidSession
   \<and> endBoothOperation closed_state 1 (Some ''forged'') t0 = (closed_state, EndFailed InvalidSession)
   \<and> snd (endBoothOperation mock_state 1 None t0) = EndOkMock
   \<and> booth_operations (fst (code_endBoothOperation closed_state 1 t0)) =
      [closed_op\<lparr>ended_at := Some t0\<rparr>]"
proof -
  have r: "\<not> session_refused closed_state 1 None" by (simp add: session_refused_def)
  have f: "session_refused closed_state 1 (Some ''forged'')"
    by (simp add: session_refused_def closed_state_fields session_a_fields)
  have g: "single (filter (\<lambda>x. op_id x = 1) (booth_operations closed_state)) = Some closed_op"
    "ended_at closed_op \<noteq> None"
    "list_all (\<lambda>x. op_id x = 1 \<longrightarrow> ended_at x \<noteq> None) (booth_operations closed_state)"
    by (simp_all add: closed_state_fields closed_op_fields)
  have c: "closed_at t0 closed_op = closed_op\<lparr>ended_at := Some t0\<rparr>"
    by (simp add: closed_op_def closed_at_def)
  have m: "\<not> getSupabase mock_state" by (simp add: getSupabase_def mock_state_def)
  have k: "snd (endBoothOperation running_state 1 (Some ''tokenA'') t0) =
      EndOk (ended t0 2 running_op) \<lparr>hours = 2, minutes = 0, totalMinutes = 120\<rparr> 2"
    unfolding running_end by simp
  have t: "truthy (Some ''tokenA'')" by simp
  note a = end_of_closed_operation [where s = closed_state and operationId = 1 and tok = None
      and now = t0 and row = closed_op and before = t0]
  note b = end_of_closed_operation [where s = running_state and operationId = 1
      and tok = "Some ''tokenA''" and before = t0 and now = "t0 + 1000"
      and data = "ended t0 2 running_op"
      and d = "\<lparr>hours = 2, minutes = 0, totalMinutes = 120\<rparr>" and n = 2]
  note f' = end_of_closed_operation [where s = closed_state and operationId = 1
      and tok = "Some ''forged''" and now = t0]
  note m' = end_of_closed_operation [where s = mock_state and operationId = 1 and tok = None
      and now = t0]
  from a [THEN conjunct2, THEN conjunct2, THEN conjunct1] r g(1,2) closed_state_fields(2)
  obtain n where "booth_operations (fst (endBoothOperation closed_state 1 None t0)) =
      map (\<lambda>x. if op_id x = 1 then ended t0 n x else x) (booth_operations closed_state)"
    by blast
  then have 1: "map ended_at (booth_operations (fst (endBoothOperation closed_state 1 None t0))) =
      [Some t0]
    \<and> map op_is_active (booth_operations (fst (endBoothOperation closed_state 1 None t0))) = [False]"
    by (simp add: closed_state_fields closed_op_fields ended_def)
  from a [THEN conjunct2, THEN conjunct2, THEN conjunct2, THEN conjunct2] g(3)
    closed_state_fields(8)
  have 5: "booth_operations (fst (code_endBoothOperation closed_state 1 t0)) =
      [closed_op\<lparr>ended_at := Some t0\<rparr>]"
    by (simp add: closed_state_fields closed_op_fields c)
  from b [THEN conjunct2, THEN conjunct1] k t running_state_fields(2)
  have 2: "snd (endBoothOperation (fst (endBoothOperation running_state 1 (Some ''tokenA'') t0)) 1
            (Some ''tokenA'') (t0 + 1000)) = EndFailed InvalidSession"
    by simp
  from f' [THEN conjunct1] f closed_state_fields(2)
  have 3: "endBoothOperation closed_state 1 (Some ''forged'') t0 =
      (closed_state, EndFailed InvalidSession)"
    by blast
  from m' [THEN conjunct2, THEN conjunct2, THEN conjunct2, THEN conjunct1] m
  have 4: "snd (endBoothOperation mock_state 1 None t0) = EndOkMock"
    by simp
  from 1 2 3 4 5 show ?thesis by simp
qed

text \<open>
  C2 as stated fails twice. A second end without a token is not a no-op: the operation
  was closed half an hour before \<open>t0\<close>, and ending it again at \<open>t0\<close> moves \<open>ended_at\<close> to
  \<open>t0\<close>. A second end with the token of the first is not a success: the first end deleted
  the session, and the repeat fails with the invalid-session error.
\<close>

theorem second_end_overwrites_ended_at:
  "map ended_at (booth_operations closed_state) = [Some (t0 - 1800000)]
   \<and> map ended_at (booth_operations (fst (endBoothOperation closed_state 1 None t0))) = [Some t0]
   \<and> snd (endBoothOperation (fst (endBoothOperation running_state 1 (Some ''tokenA'') t0)) 1
            (Some ''tokenA'') (t0 + 1000)) = EndFailed InvalidSession"
proof -
  have g: "single (filter (\<lambda>x. op_id x = 1) (booth_operations closed_state)) = Some closed_op"
    "ended_at closed_op \<noteq> None"
    by (simp_all add: closed_state_fields closed_op_fields)
  have "map ended_at (booth_operations (fst (endBoothOperation closed_state 1 None t0))) = [Some t0]"
    using update_closed_row [OF g, of "ended t0 2"]
    by (simp add: endBoothOperation_def closed_state_fields closed_op_fields session_refused_def
        visitors_of_booth Let_def ended_def)
  moreover have "snd (endBoothOperation (fst (endBoothOperation running_state 1 (Some ''tokenA'') t0)) 1
            (Some ''tokenA'') (t0 + 1000)) = EndFailed InvalidSession"
    unfolding running_end
    by (simp add: endBoothOperation_def getSupabase_def session_refused_def
        running_state_def two_booths_fields)
  ultimately show ?thesis
    by (simp add: closed_state_fields closed_op_fields)
qed

text \<open>
  C7. Operation 1 runs on booth 2, which has three participants since the operation
  started; the end of the operation stores 2, the number of participants of booth 1.
\<close>

theorem end_counts_participants_by_operation_id:
  "op_booth_id running_op = 2
   \<and> length (filter (\<lambda>p. p_booth_id p = 2 \<and> started_at running_op \<le> created_at p)
               (participants running_state)) = 3
   \<and> map total_participants
        (booth_operations (fst (endBoothOperation running_state 1 (Some ''tokenA'') t0))) = [2]"
  unfolding running_end
  by (simp add: running_op_fields(2) running_state_fields visitors_of_booth ended_def)

subsection \<open>Start of an operation\<close>

lemma short_fit: "short n v \<Longrightarrow> fit_null n v = Some v"
  by (cases v) (simp_all add: short_def fit_def)

lemma single_Some: "single xs = Some x \<longleftrightarrow> xs = [x]"
  by (cases xs rule: single.cases) auto

lemma booth_stored:
  "single (filter (\<lambda>b. b_id b = bid) (booths s)) = Some b \<Longrightarrow>
     list_ex (\<lambda>x. b_id x = bid) (booths s)"
proof -
  assume "single (filter (\<lambda>b. b_id b = bid) (booths s)) = Some b"
  then have "b \<in> set (filter (\<lambda>b. b_id b = bid) (booths s))"
    by (simp add: single_Some)
  then show ?thesis by (auto simp: list_ex_iff)
qed

lemma step_begin:
  "getSupabase s \<Longrightarrow> check_operator (sc_info c) = Inr (name, phone) \<Longrightarrow>
     start_step s c Begin = (s, HaveActive name phone (active_operations s (sc_boothId c)))"
  by (simp add: start_step_def)

lemma step_have_active:
  "single (filter (\<lambda>b. b_id b = sc_boothId c) (booths s)) = Some b \<Longrightarrow>
     start_step s c (HaveActive name phone act) =
       (s, if effective_max b \<le> int (length act)
           then Returned (StartFailed (CapacityReached (effective_max b)))
           else Admitted name phone)"
  by (simp add: start_step_def)

lemma step_admitted:
  assumes "fits_columns c name phone"
    and "list_ex (\<lambda>b. b_id b = sc_boothId c) (booths s)"
    and "\<not> list_ex (\<lambda>x. op_id x = sc_newId c) (booth_operations s)"
  shows "start_step s c (Admitted name phone) =
     (s\<lparr>booth_operations := booth_operations s @
          [\<lparr>op_id = sc_newId c, op_booth_id = sc_boothId c, operator_name = name,
            operator_phone = Some phone, operator_email = or_null (oi_email (sc_info c)),
            operator_organization = or_null (oi_organization (sc_info c)),
            started_at = sc_now c, ended_at = None, op_is_active = True,
            total_participants = 0, op_notes = or_null (oi_notes (sc_info c))\<rparr>]\<rparr>,
      Inserted \<lparr>op_id = sc_newId c, op_booth_id = sc_boothId c, operator_name = name,
            operator_phone = Some phone, operator_email = or_null (oi_email (sc_info c)),
            operator_organization = or_null (oi_organization (sc_info c)),
            started_at = sc_now c, ended_at = None, op_is_active = True,
            total_participants = 0, op_notes = or_null (oi_notes (sc_info c))\<rparr>)"
  using assms
  by (simp add: start_step_def insert_operation_def fits_columns_def short_fit fit_def)

lemma step_inserted:
  assumes "fits_columns c name phone"
    and "list_ex (\<lambda>x. op_id x = op_id operation) (booth_operations s)"
    and "\<not> list_ex (\<lambda>x. session_token x = sc_token c) (operator_sessions s)"
  shows "start_step s c (Inserted operation) =
     (s\<lparr>operator_sessions := operator_sessions s @
          [\<lparr>session_token = sc_token c, booth_operation_id = Some (op_id operation),
            expires_at = sc_now c + 8 * hour, last_activity = sc_now c,
            os_ip_address = or_null (oi_ipAddress (sc_info c))\<rparr>],
        ls_session_token := Some (sc_token c), ls_current_operation := Some operation\<rparr>,
      Returned (StartOk operation (sc_token c)))"
  using assms
  by (simp add: start_step_def insert_session_def fits_columns_def short_fit fit_def)

lemma start_refused:
  assumes "getSupabase s" "check_operator (sc_info c) = Inr (name, phone)"
    and "single (filter (\<lambda>b. b_id b = sc_boothId c) (booths s)) = Some b"
    and "effective_max b \<le> int (active_count s (sc_boothId c))"
  shows "startBoothOperation s c = (s, Returned (StartFailed (CapacityReached (effective_max b))))"
  using assms
  by (simp add: startBoothOperation_def next_step_def step_begin step_have_active
      active_count_def start_step_def)

lemma start_admits:
  assumes "getSupabase s" "check_operator (sc_info c) = Inr (name, phone)"
    and "single (filter (\<lambda>b. b_id b = sc_boothId c) (booths s)) = Some b"
    and "int (active_count s (sc_boothId c)) < effective_max b"
    and "fits_columns c name phone"
    and "\<not> list_ex (\<lambda>x. op_id x = sc_newId c) (booth_operations s)"
    and "\<not> list_ex (\<lambda>x. session_token x = sc_token c) (operator_sessions s)"
  shows "startBoothOperation s c =
     (s\<lparr>booth_operations := booth_operations s @
          [\<lparr>op_id = sc_newId c, op_booth_id = sc_boothId c, operator_name = name,
            operator_phone = Some phone, operator_email = or_null (oi_email (sc_info c)),
            operator_organization = or_null (oi_organization (sc_info c)),
            started_at = sc_now c, ended_at = None, op_is_active = True,
            total_participants = 0, op_notes = or_null (oi_notes (sc_info c))\<rparr>],
        operator_sessions := operator_sessions s @
          [\<lparr>session_token = sc_token c, booth_operation_id = Some (sc_newId c),
            expires_at = sc_now c + 8 * hour, last_activity = sc_now c,
            os_ip_address = or_null (oi_ipAddress (sc_info c))\<rparr>],
        ls_session_token := Some (sc_token c),
        ls_current_operation :=
          Some \<lparr>op_id = sc_newId c, op_booth_id = sc_boothId c, operator_name = name,
            operator_phone = Some phone, operator_email = or_null (oi_email (sc_info c)),
            operator_organization = or_null (oi_organization (sc_info c)),
            started_at = sc_now c, ended_at = None, op_is_active = True,
            total_participants = 0, op_notes = or_null (oi_notes (sc_info c))\<rparr>\<rparr>,
      Returned (StartOk
         \<lparr>op_id = sc_newId c, op_booth_id = sc_boothId c, operator_name = name,
            operator_phone = Some phone, operator_email = or_null (oi_email (sc_info c)),
            operator_organization = or_null (oi_organization (sc_info c)),
            started_at = sc_now c, ended_at = None, op_is_active = True,
            total_participants = 0, op_notes = or_null (oi_notes (sc_info c))\<rparr>
         (sc_token c)))"
proof -
  note b = booth_stored [OF assms(3)]
  from assms(4) have lt: "\<not> effective_max b \<le> int (length (active_operations s (sc_boothId c)))"
    by (simp add: active_count_def)
  show ?thesis
    unfolding startBoothOperation_def next_step_def
    using lt assms(6,7)
    by (simp add: step_begin [OF assms(1,2)] step_have_active [OF assms(3)]
        step_admitted [OF assms(5) b assms(6)] step_inserted [OF assms(5)])
qed

lemma step_appends:
  "\<exists>extra. booth_operations (fst (start_step s c pc)) = booth_operations s @ extra"
  by (cases pc)
    (auto simp: start_step_def insert_operation_def insert_session_def
      split: sum.splits option.splits if_splits prod.splits bool.splits)

lemma interleave_appends:
  "\<exists>extra. booth_operations (fst (interleave s (ca, pa) (cb, pb) schedule)) =
     booth_operations s @ extra"
proof (induction schedule arbitrary: s pa pb)
  case Nil
  show ?case by simp
next
  case (Cons first schedule)
  show ?case
  proof (cases first)
    case True
    obtain s' pa' where st: "start_step s ca pa = (s', pa')" by (cases "start_step s ca pa")
    from step_appends [of s ca pa] st obtain e1 where "booth_operations s' = booth_operations s @ e1"
      by auto
    moreover from Cons.IH [of s' pa' pb] obtain e2 where
      "booth_operations (fst (interleave s' (ca, pa') (cb, pb) schedule)) = booth_operations s' @ e2"
      by auto
    ultimately show ?thesis using True st by simp
  next
    case False
    obtain s' pb' where st: "start_step s cb pb = (s', pb')" by (cases "start_step s cb pb")
    from step_appends [of s cb pb] st obtain e1 where "booth_operations s' = booth_operations s @ e1"
      by auto
    moreover from Cons.IH [of s' pa pb'] obtain e2 where
      "booth_operations (fst (interleave s' (ca, pa) (cb, pb') schedule)) = booth_operations s' @ e2"
      by auto
    ultimately show ?thesis using False st by simp
  qed
qed


lemma step_returned: "start_step s c (Returned r) = (s, Returned r)"
  by (simp add: start_step_def)

lemma begin_cases:
  assumes "start_step s c Begin = (s', pc')"
  shows "booth_operations s' = booth_operations s
     \<and> ((\<exists>r. pc' = Returned r)
          \<or> (\<exists>n p. pc' = HaveActive n p (active_operations s (sc_boothId c)) \<and> s' = s))"
  using assms
  by (auto simp: start_step_def split: sum.splits if_splits)

lemma have_active_cases:
  assumes "start_step s c (HaveActive n p act) = (s', pc')"
  shows "s' = s
     \<and> ((\<exists>r. pc' = Returned r)
          \<or> (pc' = Admitted n p
               \<and> (\<forall>b. single (filter (\<lambda>b. b_id b = sc_boothId c) (booths s)) = Some b
                      \<longrightarrow> int (length act) < effective_max b)))"
  using assms
  by (auto simp: start_step_def split: option.splits if_splits)

lemma admitted_cases:
  assumes "start_step s c (Admitted n p) = (s', pc')"
  shows "(booth_operations s' = booth_operations s \<and> (\<exists>r. pc' = Returned r))
     \<or> (\<exists>row. booth_operations s' = booth_operations s @ [row]
            \<and> op_booth_id row = sc_boothId c \<and> op_is_active row \<and> pc' = Inserted row)"
  using assms
  by (auto simp: start_step_def insert_operation_def split: option.splits if_splits)

lemma inserted_rows:
  "booth_operations (fst (start_step s c (Inserted operation))) = booth_operations s"
  by (auto simp: start_step_def insert_session_def split: option.splits if_splits)

lemma returned_rows:
  "booth_operations (fst (start_step s c (Returned r))) = booth_operations s"
  by (simp add: start_step_def)

lemma start_rows:
  "booth_operations (fst (startBoothOperation s c)) = booth_operations s
   \<or> (\<exists>row. booth_operations (fst (startBoothOperation s c)) = booth_operations s @ [row]
         \<and> op_booth_id row = sc_boothId c \<and> op_is_active row
         \<and> (\<forall>b. single (filter (\<lambda>b. b_id b = sc_boothId c) (booths s)) = Some b
               \<longrightarrow> int (active_count s (sc_boothId c)) < effective_max b))"
proof -
  obtain s1 p1 where 1: "start_step s c Begin = (s1, p1)" by (cases "start_step s c Begin")
  obtain s2 p2 where 2: "start_step s1 c p1 = (s2, p2)" by (cases "start_step s1 c p1")
  obtain s3 p3 where 3: "start_step s2 c p2 = (s3, p3)" by (cases "start_step s2 c p2")
  have r: "fst (startBoothOperation s c) = fst (start_step s3 c p3)"
    by (simp add: startBoothOperation_def next_step_def 1 2 3)
  from begin_cases [OF 1] consider
    (ret) r1 where "p1 = Returned r1" "booth_operations s1 = booth_operations s"
    | (go) n p where "p1 = HaveActive n p (active_operations s (sc_boothId c))" "s1 = s"
    by blast
  then show ?thesis
  proof cases
    case ret
    from 2 ret have "s2 = s1" "p2 = Returned r1" by (auto simp: step_returned)
    with 3 have "s3 = s1" "p3 = Returned r1" by (auto simp: step_returned)
    with ret r show ?thesis by (simp add: step_returned)
  next
    case go
    from have_active_cases [OF 2 [unfolded go]] consider
      (ret2) r2 where "p2 = Returned r2" "s2 = s"
      | (adm) "p2 = Admitted n p" "s2 = s"
          "\<forall>b. single (filter (\<lambda>b. b_id b = sc_boothId c) (booths s)) = Some b
                 \<longrightarrow> int (active_count s (sc_boothId c)) < effective_max b"
      by (auto simp: active_count_def)
    then show ?thesis
    proof cases
      case ret2
      with 3 have "s3 = s" "p3 = Returned r2" by (auto simp: step_returned)
      with r show ?thesis by (simp add: step_returned)
    next
      case adm
      from admitted_cases [OF 3 [unfolded adm]] consider
        (ret3) r3 where "p3 = Returned r3" "booth_operations s3 = booth_operations s"
        | (ins) row where "booth_operations s3 = booth_operations s @ [row]"
            "op_booth_id row = sc_boothId c" "op_is_active row" "p3 = Inserted row"
        by blast
      then show ?thesis
      proof cases
        case ret3
        with r show ?thesis by (simp add: step_returned)
      next
        case ins
        with r adm(3) show ?thesis by (simp add: inserted_rows)
      qed
    qed
  qed
qed






text \<open>The booth-code start.\<close>

lemma validate_valid:
  assumes "snd (validateBoothCode s code now) = Valid bid nm"
  shows "validateBoothCode s code now = (s, Valid bid nm)"
    and "list_ex (\<lambda>b. b_id b = bid) (booths s)"
proof -
  from assms show "validateBoothCode s code now = (s, Valid bid nm)"
    by (auto simp: validateBoothCode_def split: option.splits if_splits)
  from assms obtain b where "single (filter (\<lambda>b. booth_code b = Some code) (booths s)) = Some b"
    "b_id b = bid"
    by (auto simp: validateBoothCode_def split: option.splits if_splits)
  then have "b \<in> set (filter (\<lambda>b. booth_code b = Some code) (booths s))" "b_id b = bid"
    by (simp_all add: single_Some)
  then show "list_ex (\<lambda>b. b_id b = bid) (booths s)"
    by (auto simp: list_ex_iff)
qed

lemma validate_invalid:
  assumes "snd (validateBoothCode s code now) = Invalid f"
  shows "validateBoothCode s code now = (s, Invalid f)"
  using assms
  by (auto simp: validateBoothCode_def split: option.splits if_splits)

lemma close_active_operations_tables:
  "booths (close_active_operations s bid now) = booths s"
  "booth_operations (close_active_operations s bid now) =
     (if update_operations s (\<lambda>x. op_booth_id x = bid \<and> op_is_active x) (closed_at now) = None
      then booth_operations s else close_active bid now (booth_operations s))"
  by (auto simp: close_active_operations_def update_operations_def close_active_def
      split: option.splits)


lemma close_active_length: "length (close_active bid now ops) = length ops"
  by (simp add: close_active_def)


lemma insert_operation_rows:
  "booth_operations (fst (insert_operation s newId bid name phone email org t notes)) =
     booth_operations s
   \<or> (\<exists>row. booth_operations (fst (insert_operation s newId bid name phone email org t notes)) =
         booth_operations s @ [row])"
  by (auto simp: insert_operation_def split: option.splits)

lemma code_start_rows:
  assumes "snd (validateBoothCode s code now) = Valid bid nm"
  shows "take (length (booth_operations s))
           (booth_operations (fst (code_startBoothOperation s code info now newId))) =
         (if update_operations s (\<lambda>x. op_booth_id x = bid \<and> op_is_active x) (closed_at now) = None
          then booth_operations s else close_active bid now (booth_operations s))"
proof -
  let ?s1 = "close_active_operations s bid now"
  let ?ins = "insert_operation ?s1 newId bid (oi_name info) (or_null (oi_phone info)) None None
      now None"
  have f: "fst (code_startBoothOperation s code info now newId) = fst ?ins"
    by (simp add: code_startBoothOperation_def validate_valid(1) [OF assms]
        split: prod.splits option.splits)
  have l: "length (booth_operations ?s1) = length (booth_operations s)"
    by (simp add: close_active_operations_tables close_active_length)
  from insert_operation_rows [of ?s1 newId bid "oi_name info" "or_null (oi_phone info)" None None
      now None]
  have "take (length (booth_operations ?s1)) (booth_operations (fst ?ins)) = booth_operations ?s1"
    by auto
  with f l show ?thesis
    by (simp add: close_active_operations_tables)
qed



lemma lee_checked:
  "check_operator operator_lee = Inr (''Lee'', ''01098765432'')"
  "check_operator operator_park = Inr (''Park'', ''01011112222'')"
  "check_operator operator_long = Inr (''Lee'', ''01098765432109876543210'')"
  "check_operator operator_short = Inl InvalidPhone"
  by (simp_all add: check_operator_def operator_lee_def operator_park_def operator_long_def
      operator_short_def numbers_def)

lemma call_fields:
  "sc_boothId call_lee = 1" "sc_info call_lee = operator_lee" "sc_now call_lee = t0"
  "sc_token call_lee = ''tokenB''" "sc_newId call_lee = 2"
  "sc_boothId call_park = 1" "sc_info call_park = operator_park" "sc_now call_park = t0"
  "sc_token call_park = ''tokenC''" "sc_newId call_park = 3"
  by (simp_all add: call_lee_def call_park_def)

lemma operator_optional:
  "or_null (oi_email operator_lee) = None" "or_null (oi_organization operator_lee) = None"
  "or_null (oi_notes operator_lee) = None" "or_null (oi_ipAddress operator_lee) = None"
  "or_null (oi_email operator_park) = None" "or_null (oi_organization operator_park) = None"
  "or_null (oi_notes operator_park) = None" "or_null (oi_ipAddress operator_park) = None"
  "or_null (oi_email operator_long) = None" "or_null (oi_organization operator_long) = None"
  "or_null (oi_notes operator_long) = None" "or_null (oi_ipAddress operator_long) = None"
  "oi_name operator_lee = Some ''Lee''" "or_null (oi_phone operator_lee) = Some ''010-9876-5432''"
  by (simp_all add: or_null_def operator_lee_def operator_park_def operator_long_def)

lemma calls_fit:
  "fits_columns call_lee ''Lee'' ''01098765432''"
  "fits_columns call_park ''Park'' ''01011112222''"
  "fits_columns (call_lee\<lparr>sc_token := ''tokenA''\<rparr>) ''Lee'' ''01098765432''"
  "fits_columns (call_lee\<lparr>sc_newId := 1\<rparr>) ''Lee'' ''01098765432''"
  by (simp_all add: fits_columns_def call_fields operator_optional short_def)

lemma booth_limits:
  "effective_max booth_a = 1" "effective_max booth_b = 3"
  "effective_max (booth_a\<lparr>max_operators := Some 0\<rparr>) = 3"
  "b_id booth_a = 1" "b_id booth_b = 2"
  by (simp_all add: effective_max_def booth_a_def booth_b_def)

lemma booth_codes:
  "booth_code booth_a = Some ''AAA000''" "booth_code booth_b = Some ''XX4TK0''"
  "code_expires_at booth_a = None" "b_is_active booth_a" "b_name booth_a = ''Counselling''"
  by (simp_all add: booth_a_def booth_b_def)

lemma full_state_fields:
  "booths full_state = [booth_a, booth_b]" "getSupabase full_state" "supabase full_state"
  "booth_operations full_state = [first_op]" "operator_sessions full_state = []"
  "daily_stats full_state = []" "parse_local full_state = (\<lambda>t. t)"
  by (simp_all add: full_state_def getSupabase_def two_booths_fields)

lemma stale_state_fields:
  "booths stale_state = [booth_a, booth_b]" "getSupabase stale_state" "supabase stale_state"
  "booth_operations stale_state = [stale_op]" "operator_sessions stale_state = []"
  "daily_stats stale_state = []" "parse_local stale_state = (\<lambda>t. t)"
  by (simp_all add: stale_state_def getSupabase_def two_booths_fields)

lemma first_op_fields:
  "op_id first_op = 1" "op_booth_id first_op = 1" "op_is_active first_op"
  "ended_at first_op = None" "started_at first_op = t0 - 2 * hour"
  "op_id stale_op = 1" "op_booth_id stale_op = 1" "op_is_active stale_op"
  "ended_at stale_op = None" "started_at stale_op = t0 - 1000 * hour"
  by (simp_all add: first_op_def stale_op_def running_op_def)

lemma two_booths_available: "getSupabase two_booths"
  by (simp add: getSupabase_def two_booths_fields)

lemma two_booths_start:
  "startBoothOperation two_booths call_lee =
     (two_booths\<lparr>booth_operations :=
          [\<lparr>op_id = 2, op_booth_id = 1, operator_name = ''Lee'',
            operator_phone = Some ''01098765432'', operator_email = None,
            operator_organization = None, started_at = t0, ended_at = None,
            op_is_active = True, total_participants = 0, op_notes = None\<rparr>],
        operator_sessions :=
          [\<lparr>session_token = ''tokenB'', booth_operation_id = Some 2,
            expires_at = t0 + 8 * hour, last_activity = t0, os_ip_address = None\<rparr>],
        ls_session_token := Some ''tokenB'',
        ls_current_operation :=
          Some \<lparr>op_id = 2, op_booth_id = 1, operator_name = ''Lee'',
            operator_phone = Some ''01098765432'', operator_email = None,
            operator_organization = None, started_at = t0, ended_at = None,
            op_is_active = True, total_participants = 0, op_notes = None\<rparr>\<rparr>,
      Returned (StartOk
         \<lparr>op_id = 2, op_booth_id = 1, operator_name = ''Lee'',
            operator_phone = Some ''01098765432'', operator_email = None,
            operator_organization = None, started_at = t0, ended_at = None,
            op_is_active = True, total_participants = 0, op_notes = None\<rparr> ''tokenB''))"
proof -
  have "single (filter (\<lambda>b. b_id b = sc_boothId call_lee) (booths two_booths)) = Some booth_a"
    by (simp add: call_fields two_booths_fields booth_limits)
  moreover have "int (active_count two_booths (sc_boothId call_lee)) < effective_max booth_a"
    by (simp add: active_count_def active_operations_def two_booths_fields booth_limits)
  moreover have "check_operator (sc_info call_lee) = Inr (''Lee'', ''01098765432'')"
    by (simp add: call_fields lee_checked)
  moreover have "\<not> list_ex (\<lambda>x. op_id x = sc_newId call_lee) (booth_operations two_booths)"
    "\<not> list_ex (\<lambda>x. session_token x = sc_token call_lee) (operator_sessions two_booths)"
    by (simp_all add: two_booths_fields)
  ultimately show ?thesis
    using start_admits [where s = two_booths and c = call_lee and name = "''Lee''"
        and phone = "''01098765432''" and b = booth_a] calls_fit(1) two_booths_available
    by (simp add: call_fields operator_optional two_booths_fields)
qed


lemma full_state_start:
  "startBoothOperation full_state call_lee =
     (full_state, Returned (StartFailed (CapacityReached 1)))"
proof -
  have "single (filter (\<lambda>b. b_id b = sc_boothId call_lee) (booths full_state)) = Some booth_a"
    by (simp add: call_fields full_state_fields booth_limits)
  moreover have "effective_max booth_a \<le> int (active_count full_state (sc_boothId call_lee))"
    by (simp add: active_count_def active_operations_def full_state_fields booth_limits
        call_fields first_op_fields)
  moreover have "check_operator (sc_info call_lee) = Inr (''Lee'', ''01098765432'')"
    by (simp add: call_fields lee_checked)
  ultimately show ?thesis
    using start_refused [where s = full_state and c = call_lee and name = "''Lee''"
        and phone = "''01098765432''" and b = booth_a] full_state_fields(2)
    by (simp add: booth_limits)
qed

lemma code_valid:
  "validateBoothCode full_state ''AAA000'' t0 = (full_state, Valid 1 ''Counselling'')"
  "validateBoothCode stale_state ''AAA000'' t0 = (stale_state, Valid 1 ''Counselling'')"
  "validateBoothCode two_booths ''ZZZ999'' t0 = (two_booths, Invalid InvalidCode)"
  by (simp_all add: validateBoothCode_def full_state_fields stale_state_fields two_booths_fields
      booth_codes booth_limits)

lemma closing_update:
  "update_operations full_state (\<lambda>x. op_booth_id x = 1 \<and> op_is_active x) (closed_at t0) =
     Some (full_state\<lparr>booth_operations := [closed_at t0 first_op],
        daily_stats := [\<lparr>ds_booth_id = 1, ds_date = (t0 - 2 * hour) div 86400000,
                         operator_count = 1, operation_hours = 200\<rparr>]\<rparr>)"
  "update_operations stale_state (\<lambda>x. op_booth_id x = 1 \<and> op_is_active x) (closed_at t0) = None"
proof -
  have h: "hours_hundredths (t0 - 2 * hour) t0 = 200"
    "hours_hundredths (t0 - 1000 * hour) t0 = 100000"
    by (simp_all add: hours_hundredths_def hour_def)
  have e: "ended_at (closed_at t0 x) = Some t0" "started_at (closed_at t0 x) = started_at x"
    "op_booth_id (closed_at t0 x) = op_booth_id x" for x
    by (simp_all add: closed_at_def)
  show "update_operations full_state (\<lambda>x. op_booth_id x = 1 \<and> op_is_active x) (closed_at t0) =
     Some (full_state\<lparr>booth_operations := [closed_at t0 first_op],
        daily_stats := [\<lparr>ds_booth_id = 1, ds_date = (t0 - 2 * hour) div 86400000,
                         operator_count = 1, operation_hours = 200\<rparr>]\<rparr>)"
    by (simp add: update_operations_def full_state_fields first_op_fields e
        record_operation_end_def h decimal_5_2_def)
  show "update_operations stale_state (\<lambda>x. op_booth_id x = 1 \<and> op_is_active x) (closed_at t0) = None"
    by (simp add: update_operations_def stale_state_fields first_op_fields e
        record_operation_end_def h decimal_5_2_def)
qed




lemma full_state_code_start:
  "code_startBoothOperation full_state ''AAA000'' operator_lee t0 2 =
     (full_state\<lparr>booth_operations :=
         [first_op\<lparr>op_is_active := False, ended_at := Some t0\<rparr>,
          \<lparr>op_id = 2, op_booth_id = 1, operator_name = ''Lee'',
            operator_phone = Some ''010-9876-5432'', operator_email = None,
            operator_organization = None, started_at = t0, ended_at = None,
            op_is_active = True, total_participants = 0, op_notes = None\<rparr>],
        daily_stats := [\<lparr>ds_booth_id = 1, ds_date = (t0 - 2 * hour) div 86400000,
                         operator_count = 1, operation_hours = 200\<rparr>]\<rparr>,
      CodeStartOk 2 1 ''Counselling'')"
  by (simp add: code_startBoothOperation_def code_valid close_active_operations_def
      closing_update [unfolded One_nat_def] insert_operation_def operator_optional fit_def
      full_state_fields closed_at_def first_op_fields booth_limits)










text \<open>
  C6, as amended. Every step of \<open>startBoothOperation\<close> of the operation module, and so every
  call of it, alone or interleaved with another, leaves every existing operation row as
  it was: it can only append rows. \<open>startBoothOperation\<close> of the booth-code module changes
  nothing when the code is refused. Once the code is valid it closes the active
  operations of the booth before it inserts: unless the store refuses that update as a
  whole, every operation of the booth that was active gets \<open>is_active\<close> false and \<open>ended_at\<close>
  now, and every other row is left as it was. When the store refuses the update, all rows
  are left as they were.
\<close>

theorem start_frame:
  "(\<exists>extra. booth_operations (fst (start_step s c pc)) = booth_operations s @ extra)
   \<and> (\<exists>extra. booth_operations (fst (startBoothOperation s c)) = booth_operations s @ extra)
   \<and> (\<exists>extra. booth_operations (fst (interleave s (ca, pa) (cb, pb) schedule)) =
                 booth_operations s @ extra)
   \<and> (snd (validateBoothCode s code now) = Invalid f \<longrightarrow>
        code_startBoothOperation s code info now newId = (s, CodeStartRefused f))
   \<and> (snd (validateBoothCode s code now) = Valid bid nm \<longrightarrow>
        take (length (booth_operations s))
          (booth_operations (fst (code_startBoothOperation s code info now newId))) =
        (if update_operations s (\<lambda>x. op_booth_id x = bid \<and> op_is_active x) (closed_at now)
              = None
         then booth_operations s else close_active bid now (booth_operations s)))
   \<and> (i < length ops \<longrightarrow>
        close_active bid now ops ! i =
          (if op_booth_id (ops ! i) = bid \<and> op_is_active (ops ! i)
           then (ops ! i)\<lparr>op_is_active := False, ended_at := Some now\<rparr> else ops ! i))"
proof -
  have 2: "\<exists>extra. booth_operations (fst (startBoothOperation s c)) = booth_operations s @ extra"
    using start_rows [of s c] by auto
  have 4: "code_startBoothOperation s code info now newId = (s, CodeStartRefused f)"
    if "snd (validateBoothCode s code now) = Invalid f"
    by (simp add: code_startBoothOperation_def validate_invalid [OF that])
  have 6: "close_active bid now ops ! i =
          (if op_booth_id (ops ! i) = bid \<and> op_is_active (ops ! i)
           then (ops ! i)\<lparr>op_is_active := False, ended_at := Some now\<rparr> else ops ! i)"
    if "i < length ops"
    using that by (simp add: close_active_def closed_at_def)
  from step_appends [of s c pc] 2 interleave_appends [of s ca pa cb pb schedule] 4
    code_start_rows [of s code now bid nm info newId] 6
  show ?thesis by blast
qed

theorem start_frame_witness:
  "booth_operations (fst (startBoothOperation two_booths call_lee)) =
     [\<lparr>op_id = 2, op_booth_id = 1, operator_name = ''Lee'',
       operator_phone = Some ''01098765432'', operator_email = None,
       operator_organization = None, started_at = t0, ended_at = None,
       op_is_active = True, total_participants = 0, op_notes = None\<rparr>]
   \<and> code_startBoothOperation two_booths ''ZZZ999'' operator_lee t0 2 =
       (two_booths, CodeStartRefused InvalidCode)
   \<and> take 1 (booth_operations (fst (code_startBoothOperation full_state ''AAA000'' operator_lee t0 2)))
       = [first_op\<lparr>op_is_active := False, ended_at := Some t0\<rparr>]
   \<and> take 1 (booth_operations (fst (code_startBoothOperation stale_state ''AAA000'' operator_lee t0 2)))
       = [stale_op]"
proof -
  have v: "snd (validateBoothCode two_booths ''ZZZ999'' t0) = Invalid InvalidCode"
    "snd (validateBoothCode full_state ''AAA000'' t0) = Valid 1 ''Counselling''"
    "snd (validateBoothCode stale_state ''AAA000'' t0) = Valid 1 ''Counselling''"
    by (simp_all add: code_valid)
  note a1 = start_frame [where s = two_booths and code = "''ZZZ999''" and now = t0
      and f = InvalidCode and info = operator_lee and newId = 2 and i = 0 and ops = "[first_op]"
      and bid = 1]
  note a2 = start_frame [where s = full_state and code = "''AAA000''" and now = t0
      and bid = 1 and nm = "''Counselling''" and info = operator_lee and newId = 2 and i = 0
      and ops = "[first_op]"]
  note a3 = start_frame [where s = stale_state and code = "''AAA000''" and now = t0
      and bid = 1 and nm = "''Counselling''" and info = operator_lee and newId = 2 and i = 0
      and ops = "[first_op]"]
  have 0: "booth_operations (fst (startBoothOperation two_booths call_lee)) =
     [\<lparr>op_id = 2, op_booth_id = 1, operator_name = ''Lee'',
       operator_phone = Some ''01098765432'', operator_email = None,
       operator_organization = None, started_at = t0, ended_at = None,
       op_is_active = True, total_participants = 0, op_notes = None\<rparr>]"
    by (simp add: two_booths_start)
  from a1 [THEN conjunct2, THEN conjunct2, THEN conjunct2, THEN conjunct1] v(1)
  have 1: "code_startBoothOperation two_booths ''ZZZ999'' operator_lee t0 2 =
       (two_booths, CodeStartRefused InvalidCode)"
    by blast
  from a2 [THEN conjunct2, THEN conjunct2, THEN conjunct2, THEN conjunct2, THEN conjunct1]
    v(2) have 2:
    "take 1 (booth_operations (fst (code_startBoothOperation full_state ''AAA000'' operator_lee t0 2)))
       = [first_op\<lparr>op_is_active := False, ended_at := Some t0\<rparr>]"
    by (simp add: closing_update [unfolded One_nat_def] full_state_fields first_op_fields
        close_active_def closed_at_def)
  from a3 [THEN conjunct2, THEN conjunct2, THEN conjunct2, THEN conjunct2, THEN conjunct1]
    v(3) have 3:
    "take 1 (booth_operations (fst (code_startBoothOperation stale_state ''AAA000'' operator_lee t0 2)))
       = [stale_op]"
    by (simp add: closing_update [unfolded One_nat_def] stale_state_fields)
  from 0 1 2 3 show ?thesis by blast
qed

text \<open>
  C6 as stated fails on the start of the booth-code module: the operation that was active
  on booth 1 is closed by another operator's start.
\<close>

theorem code_start_closes_active_operations:
  "map op_is_active (booth_operations full_state) = [True]
   \<and> map ended_at (booth_operations full_state) = [None]
   \<and> map op_is_active
        (booth_operations (fst (code_startBoothOperation full_state ''AAA000'' operator_lee t0 2))) =
       [False, True]
   \<and> map ended_at
        (booth_operations (fst (code_startBoothOperation full_state ''AAA000'' operator_lee t0 2))) =
       [Some t0, None]"
  by (simp add: full_state_code_start full_state_fields first_op_fields)

end
